theory Spec2Isabelle
  imports Complex_Main "HOL-Library.Sublist"
begin

section \<open>Python text primitives\<close>

text \<open>
  Text is modelled as ASCII: a \<^typ>\<open>string\<close> is a list of 8-bit characters, and the
  character classes below are Python's \<^verbatim>\<open>str.isspace\<close>, \<^verbatim>\<open>\d\<close>, \<^verbatim>\<open>\w\<close> and
  \<^verbatim>\<open>str.lower\<close> restricted to the ASCII range. Characters above 127 are neither
  whitespace nor word characters and have no case.
\<close>

definition ord :: "char \<Rightarrow> int" where
  "ord c = of_char c"

definition isspace :: "char \<Rightarrow> bool" where
  "isspace c = (let n = ord c in n = 32 \<or> (9 \<le> n \<and> n \<le> 13) \<or> (28 \<le> n \<and> n \<le> 31))"

definition isdigit :: "char \<Rightarrow> bool" where
  "isdigit c = (let n = ord c in 48 \<le> n \<and> n \<le> 57)"

definition isupper :: "char \<Rightarrow> bool" where
  "isupper c = (let n = ord c in 65 \<le> n \<and> n \<le> 90)"

definition islower :: "char \<Rightarrow> bool" where
  "islower c = (let n = ord c in 97 \<le> n \<and> n \<le> 122)"

definition isalpha :: "char \<Rightarrow> bool" where
  "isalpha c = (isupper c \<or> islower c)"

definition isalnum :: "char \<Rightarrow> bool" where
  "isalnum c = (isalpha c \<or> isdigit c)"

definition is_word :: "char \<Rightarrow> bool" where
  \<comment> \<open>the class \<^verbatim>\<open>\w\<close>: alphanumerics and the underscore\<close>
  "is_word c = (isalnum c \<or> c = CHR ''_'')"

definition lower_char :: "char \<Rightarrow> char" where
  "lower_char c = (if isupper c then char_of (ord c + 32) else c)"

definition upper_char :: "char \<Rightarrow> char" where
  "upper_char c = (if islower c then char_of (ord c - 32) else c)"

definition lower :: "string \<Rightarrow> string" where
  "lower s = map lower_char s"


text \<open>\<^verbatim>\<open>x in y\<close> on strings: \<open>x\<close> occurs as a contiguous substring of \<open>y\<close>.\<close>

fun str_in :: "string \<Rightarrow> string \<Rightarrow> bool" where
  "str_in x [] = (x = [])"
| "str_in x (c # cs) = (prefix x (c # cs) \<or> str_in x cs)"

text \<open>\<^verbatim>\<open>y.find(x)\<close>: the index of the first occurrence, or \<open>-1\<close>.\<close>

fun find_from :: "string \<Rightarrow> string \<Rightarrow> nat \<Rightarrow> int" where
  "find_from x [] i = (if x = [] then int i else - 1)"
| "find_from x (c # cs) i = (if prefix x (c # cs) then int i else find_from x cs (Suc i))"

definition str_find :: "string \<Rightarrow> string \<Rightarrow> int" where
  "str_find y x = find_from x y 0"

text \<open>\<^verbatim>\<open>s.split()\<close>: the maximal runs of non-whitespace characters, in order.\<close>

fun split_acc :: "string \<Rightarrow> string \<Rightarrow> string list" where
  "split_acc [] w = (if w = [] then [] else [rev w])"
| "split_acc (c # cs) w =
     (if isspace c then (if w = [] then split_acc cs [] else rev w # split_acc cs [])
      else split_acc cs (c # w))"

definition str_split :: "string \<Rightarrow> string list" where
  "str_split s = split_acc s []"

definition str_strip :: "string \<Rightarrow> string" where
  "str_strip s = rev (dropWhile isspace (rev (dropWhile isspace s)))"

fun str_join :: "string \<Rightarrow> string list \<Rightarrow> string" where
  "str_join sep [] = []"
| "str_join sep [w] = w"
| "str_join sep (w # v # ws) = w @ sep @ str_join sep (v # ws)"

text \<open>\<^verbatim>\<open>xs[:k]\<close>: a negative \<open>k\<close> counts from the end; no index is out of range.\<close>

definition slice_to :: "'a list \<Rightarrow> int \<Rightarrow> 'a list" where
  "slice_to xs k = (if k < 0 then take (nat (int (length xs) + k)) xs else take (nat k) xs)"

text \<open>
  \<^verbatim>\<open>xs.sort(key=f, reverse=True)\<close>: the list is reversed, sorted by a stable ascending
  sort and reversed again, which is how the interpreter keeps a descending sort stable.
\<close>

definition sort_desc :: "('a \<Rightarrow> 'k::linorder) \<Rightarrow> 'a list \<Rightarrow> 'a list" where
  "sort_desc f xs = rev (sort_key f (rev xs))"

text \<open>Decimal numerals: \<^verbatim>\<open>int(s)\<close> on a string of digits and \<^verbatim>\<open>str(n)\<close>.\<close>

definition int_of_digits :: "string \<Rightarrow> nat" where
  "int_of_digits s = foldl (\<lambda>a c. 10 * a + nat (ord c - 48)) 0 s"

fun digits_fuel :: "nat \<Rightarrow> nat \<Rightarrow> string" where
  "digits_fuel 0 n = []"
| "digits_fuel (Suc f) n =
     (if n < 10 then [char_of (48 + int n)]
      else digits_fuel f (n div 10) @ [char_of (48 + int (n mod 10))])"

definition str_of_nat :: "nat \<Rightarrow> string" where
  \<comment> \<open>a number \<open>n\<close> has at most \<open>n + 1\<close> digits, so the fuel never runs out\<close>
  "str_of_nat n = digits_fuel (Suc n) n"

section \<open>Regular expressions of the \<^verbatim>\<open>re\<close> module\<close>

text \<open>
  A backtracking matcher. A cursor is the character before the position (for \<^verbatim>\<open>\b\<close>)
  and the text still to read. \<open>rmatch\<close> lists every cursor at which a match of the
  expression that starts at the given cursor can end, in the order in which a
  backtracking engine tries them (greedy repetition first, alternatives left to right):
  the head of the list is the match Python reports.
\<close>

type_synonym cursor = "char option \<times> string"

datatype regex =
    Eps
  | Set "char \<Rightarrow> bool"
  | Bnd
  | Cat regex regex
  | Alt regex regex
  | Star regex

definition Lit :: "char \<Rightarrow> regex" where
  "Lit c = Set (\<lambda>x. x = c)"

definition Opt :: "regex \<Rightarrow> regex" where
  "Opt a = Alt a Eps"

definition Plus :: "regex \<Rightarrow> regex" where
  "Plus a = Cat a (Star a)"

fun seq :: "regex list \<Rightarrow> regex" where
  "seq [] = Eps"
| "seq (a # as) = Cat a (seq as)"


definition str :: "string \<Rightarrow> regex" where
  "str s = seq (map Lit s)"

fun times :: "nat \<Rightarrow> regex \<Rightarrow> regex" where
  \<comment> \<open>\<^verbatim>\<open>a{n}\<close>\<close>
  "times 0 a = Eps"
| "times (Suc n) a = Cat a (times n a)"


fun at_boundary :: "cursor \<Rightarrow> bool" where
  "at_boundary (p, s) =
     ((case p of None \<Rightarrow> False | Some c \<Rightarrow> is_word c) \<noteq>
      (case s of [] \<Rightarrow> False | c # _ \<Rightarrow> is_word c))"

text \<open>
  With \<^verbatim>\<open>re.IGNORECASE\<close> (\<open>ic\<close>) a character belongs to a class when it, its lower-case
  form or its upper-case form does.
\<close>

fun step_char :: "bool \<Rightarrow> (char \<Rightarrow> bool) \<Rightarrow> cursor \<Rightarrow> cursor list" where
  "step_char ic P (p, []) = []"
| "step_char ic P (p, c # cs) =
     (if P c \<or> (ic \<and> (P (lower_char c) \<or> P (upper_char c))) then [(Some c, cs)] else [])"

fun rmatch :: "bool \<Rightarrow> regex \<Rightarrow> cursor \<Rightarrow> cursor list" where
  "rmatch ic Eps cur = [cur]"
| "rmatch ic (Set P) cur = step_char ic P cur"
| "rmatch ic Bnd cur = (if at_boundary cur then [cur] else [])"
| "rmatch ic (Cat a b) cur = concat (map (rmatch ic b) (rmatch ic a cur))"
| "rmatch ic (Alt a b) cur = rmatch ic a cur @ rmatch ic b cur"
| "rmatch ic (Star a) cur =
     concat (map (\<lambda>c. if length (snd c) < length (snd cur) then rmatch ic (Star a) c else [])
                 (rmatch ic a cur)) @ [cur]"

text \<open>
  The match at a cursor, if any. Every pattern of this program consumes at least one
  character when it matches; a match that consumes nothing is passed over.
\<close>

definition match_at :: "bool \<Rightarrow> regex \<Rightarrow> cursor \<Rightarrow> cursor option" where
  "match_at ic r cur =
     (case rmatch ic r cur of
        [] \<Rightarrow> None
      | e # _ \<Rightarrow> if length (snd e) < length (snd cur) then Some e else None)"

text \<open>\<^verbatim>\<open>re.sub(pattern, repl, text)\<close> for a constant replacement: leftmost matches, left to right.\<close>

function sub_from :: "bool \<Rightarrow> regex \<Rightarrow> string \<Rightarrow> cursor \<Rightarrow> string" where
  "sub_from ic r rep (p, s) =
     (case match_at ic r (p, s) of
        Some e \<Rightarrow> rep @ sub_from ic r rep e
      | None \<Rightarrow> (case s of [] \<Rightarrow> [] | c # cs \<Rightarrow> c # sub_from ic r rep (Some c, cs)))"
  by pat_completeness auto
termination
  by (relation "measure (\<lambda>(ic, r, rep, cur). length (snd cur))")
     (auto simp: match_at_def split: list.splits if_splits)

definition re_sub :: "bool \<Rightarrow> regex \<Rightarrow> string \<Rightarrow> string \<Rightarrow> string" where
  "re_sub ic r rep text = sub_from ic r rep (None, text)"

text \<open>\<^verbatim>\<open>re.split(pattern, text)\<close>: the pieces between the matches, empty pieces included.\<close>

function split_from :: "bool \<Rightarrow> regex \<Rightarrow> cursor \<Rightarrow> string \<Rightarrow> string list" where
  "split_from ic r (p, s) piece =
     (case match_at ic r (p, s) of
        Some e \<Rightarrow> rev piece # split_from ic r e []
      | None \<Rightarrow> (case s of [] \<Rightarrow> [rev piece]
                 | c # cs \<Rightarrow> split_from ic r (Some c, cs) (c # piece)))"
  by pat_completeness auto
termination
  by (relation "measure (\<lambda>(ic, r, cur, piece). length (snd cur))")
     (auto simp: match_at_def split: list.splits if_splits)

definition re_split :: "bool \<Rightarrow> regex \<Rightarrow> string \<Rightarrow> string list" where
  "re_split ic r text = split_from ic r (None, text) []"

text \<open>
  \<^verbatim>\<open>re.findall\<close> for a pattern \<^verbatim>\<open>(g)t\<close> with one leading group: the text of the group in
  each match. The group's alternatives are tried in order, each followed by the tail.
\<close>

definition group_at :: "bool \<Rightarrow> regex \<Rightarrow> regex \<Rightarrow> cursor \<Rightarrow> (string \<times> cursor) option" where
  "group_at ic g t cur =
     (case concat (map (\<lambda>m. map (\<lambda>e. (take (length (snd cur) - length (snd m)) (snd cur), e))
                                   (rmatch ic t m))
                        (rmatch ic g cur)) of
        [] \<Rightarrow> None
      | (grp, e) # _ \<Rightarrow> if length (snd e) < length (snd cur) then Some (grp, e) else None)"

function findall_from :: "bool \<Rightarrow> regex \<Rightarrow> regex \<Rightarrow> cursor \<Rightarrow> string list" where
  "findall_from ic g t (p, s) =
     (case group_at ic g t (p, s) of
        Some (grp, e) \<Rightarrow> grp # findall_from ic g t e
      | None \<Rightarrow> (case s of [] \<Rightarrow> [] | c # cs \<Rightarrow> findall_from ic g t (Some c, cs)))"
  by pat_completeness auto
termination
  by (relation "measure (\<lambda>(ic, g, t, cur). length (snd cur))")
     (auto simp: group_at_def split: list.splits if_splits)

definition re_findall :: "bool \<Rightarrow> regex \<Rightarrow> regex \<Rightarrow> string \<Rightarrow> string list" where
  "re_findall ic g t text = findall_from ic g t (None, text)"



section \<open>Data model\<close>

text \<open>
  The rows of \<^verbatim>\<open>models.py\<close>, with the columns the services below read or write. A JSON
  column that may be \<^verbatim>\<open>NULL\<close> is an option; floats are read as real numbers.
\<close>

datatype error = ValueError string | ZeroDivisionError | OSError string

datatype json = JNull | JBool bool | JNum int | JStr string | JList "json list"
  | JObj "(string \<times> json) list"


record resume =
  resume_id :: int
  filename :: string
  original_filename :: string
  file_path :: string
  file_size :: int
  content :: string
  embeddings :: "real list option"
  metadata :: "json option"
  idempotency_key :: "string option"
  owner_id :: int

record job =
  job_id :: int
  title :: string
  description :: string
  requirements :: "string list"
  job_owner_id :: int

record db =
  resumes :: "resume list"
  jobs :: "job list"

section \<open>PII redaction (\<^verbatim>\<open>services/pii_service.py\<close>)\<close>

definition digit :: regex where
  "digit = Set isdigit"

definition one_of :: "string \<Rightarrow> regex" where
  "one_of cs = Set (\<lambda>c. c \<in> set cs)"

















section \<open>Embeddings (\<^verbatim>\<open>services/embedding_service.py\<close>)\<close>

definition clean_text :: "string \<Rightarrow> string" where
  "clean_text text =
     (let text = re_sub False (Plus (Set isspace)) '' '' text;
          text = re_sub False
                   (Set (\<lambda>c. \<not> (is_word c \<or> isspace c \<or> c \<in> set ''.,!?;:-''))) [] text;
          text = lower text;
          words = str_split text;
          words = filter (\<lambda>word. length word > 2) words
      in str_join '' '' words)"

text \<open>
  The sentence-transformer model is outside the repository: \<open>encode\<close> stands for
  \<^verbatim>\<open>self.model.encode\<close>.
\<close>

definition generate_embeddings :: "(string \<Rightarrow> real list) \<Rightarrow> string \<Rightarrow> real list" where
  "generate_embeddings encode text = encode (clean_text text)"

text \<open>
  numpy and the arithmetic of floats are outside the repository as well: \<open>lib\<close> stands for
  them. An embedding is a list of finite floats, each read as the real number it denotes;
  what the library computes from them (a rounded value, an infinity or nan) is a value
  of the type \<open>'f\<close>, about which the functions below assume nothing. \<open>np_dot\<close> is \<^verbatim>\<open>np.dot\<close>,
  which raises on arrays of different lengths, \<open>np_norm\<close> is \<^verbatim>\<open>np.linalg.norm\<close>, \<open>f_times\<close>
  and \<open>f_divide\<close> are \<^verbatim>\<open>*\<close> and \<^verbatim>\<open>/\<close>, \<open>f_is_zero\<close> is the test \<^verbatim>\<open>== 0\<close> and \<open>f_zero\<close> is \<^verbatim>\<open>0.0\<close>.
\<close>

record 'f numeric =
  np_dot :: "real list \<Rightarrow> real list \<Rightarrow> error + 'f"
  np_norm :: "real list \<Rightarrow> 'f"
  f_times :: "'f \<Rightarrow> 'f \<Rightarrow> 'f"
  f_divide :: "'f \<Rightarrow> 'f \<Rightarrow> 'f"
  f_is_zero :: "'f \<Rightarrow> bool"
  f_zero :: "'f"

definition calculate_similarity :: "'f numeric \<Rightarrow> real list \<Rightarrow> real list \<Rightarrow> error + 'f" where
  "calculate_similarity lib embedding1 embedding2 =
     (case np_dot lib embedding1 embedding2 of
        Inl e \<Rightarrow> Inl e
      | Inr dot_product \<Rightarrow>
          (let norm1 = np_norm lib embedding1; norm2 = np_norm lib embedding2
           in if f_is_zero lib norm1 \<or> f_is_zero lib norm2 then Inr (f_zero lib)
              else Inr (f_divide lib dot_product (f_times lib norm1 norm2))))"

text \<open>
  A document dictionary of \<^verbatim>\<open>find_similar_documents\<close>; \<open>doc_embeddings = None\<close> stands for a
  dictionary without the key \<^verbatim>\<open>'embeddings'\<close> or with the value \<^verbatim>\<open>None\<close>.
\<close>

record document =
  doc_id :: int
  doc_content :: string
  doc_filename :: string
  doc_embeddings :: "real list option"

record 'f similar =
  sim_document :: document
  similarity :: 'f

fun score_documents :: "'f numeric \<Rightarrow> real list \<Rightarrow> document list \<Rightarrow> error + 'f similar list" where
  "score_documents lib query_embedding [] = Inr []"
| "score_documents lib query_embedding (doc # docs) =
     (case doc_embeddings doc of
        None \<Rightarrow> score_documents lib query_embedding docs
      | Some e \<Rightarrow>
          if e = [] then score_documents lib query_embedding docs
          else (case calculate_similarity lib query_embedding e of
                  Inl err \<Rightarrow> Inl err
                | Inr sim \<Rightarrow>
                    (case score_documents lib query_embedding docs of
                       Inl err \<Rightarrow> Inl err
                     | Inr similarities \<Rightarrow>
                         Inr (\<lparr>sim_document = doc, similarity = sim\<rparr> # similarities))))"

text \<open>
  The sort compares the scores: they are taken from a linearly ordered type, which leaves
  nan (it compares false with everything) out of the lists that are sorted.
\<close>

definition find_similar_documents ::
  "('f::linorder) numeric \<Rightarrow> real list \<Rightarrow> document list \<Rightarrow> int \<Rightarrow> error + 'f similar list" where
  "find_similar_documents lib query_embedding document_embeddings top_k =
     (case score_documents lib query_embedding document_embeddings of
        Inl err \<Rightarrow> Inl err
      | Inr similarities \<Rightarrow> Inr (slice_to (sort_desc similarity similarities) top_k))"

section \<open>Matching (\<^verbatim>\<open>services/matching_service.py\<close>)\<close>

datatype evidence_type = skill_match | experience_match | education_match

record evidence_item =
  ev_requirement :: string
  ev_evidence :: string
  ev_type :: evidence_type

record 'f candidate_match =
  m_resume_id :: int
  m_filename :: string
  m_score :: 'f
  m_evidence :: "evidence_item list"
  m_missing_requirements :: "string list"

definition find_context :: "string \<Rightarrow> string \<Rightarrow> string" where
  "find_context term content' =
     (let pos = str_find (lower content') term
      in if pos = - 1 then []
         else (let start = max 0 (pos - 100);
                   end' = min (int (length content')) (pos + int (length term) + 100);
                   context = take (nat (end' - start)) (drop (nat start) content')
               in str_strip (re_sub False (Plus (Set isspace)) '' '' context)))"

fun has_similar_words :: "string list \<Rightarrow> string \<Rightarrow> bool" where
  "has_similar_words [] content' = False"
| "has_similar_words (word # requirement_words) content' =
     (if length word > 3 \<and> str_in word content' then True
      else has_similar_words requirement_words content')"

definition has_similar_term :: "string \<Rightarrow> string \<Rightarrow> bool" where
  "has_similar_term requirement content' = has_similar_words (str_split requirement) content'"

definition years_group :: regex where
  \<comment> \<open>the group \<^verbatim>\<open>(\d+)\<close> of \<^verbatim>\<open>(\d+)\s*years?\s*(?:of\s*)?experience\<close>\<close>
  "years_group = Plus digit"

definition years_tail :: regex where
  \<comment> \<open>the rest of the pattern: \<^verbatim>\<open>\s*years?\s*(?:of\s*)?experience\<close>\<close>
  "years_tail = seq
     [Star (Set isspace), str ''year'', Opt (Lit CHR ''s''), Star (Set isspace),
      Opt (seq [str ''of'', Star (Set isspace)]), str ''experience'']"

definition check_experience_match :: "job \<Rightarrow> resume \<Rightarrow> evidence_item list" where
  "check_experience_match j r =
     (let job_text = lower (description j);
          resume_content = lower (content r)
      in case re_findall False years_group years_tail job_text of
           [] \<Rightarrow> []
         | job_year # _ \<Rightarrow>
             (let required_years = int_of_digits job_year
              in case re_findall False years_group years_tail resume_content of
                   [] \<Rightarrow> []
                 | resume_year # _ \<Rightarrow>
                     (let candidate_years = int_of_digits resume_year
                      in if candidate_years \<ge> required_years
                         then [\<lparr>ev_requirement = str_of_nat required_years @ '' years of experience'',
                                ev_evidence = ''Candidate has '' @ str_of_nat candidate_years
                                                @ '' years of experience'',
                                ev_type = experience_match\<rparr>]
                         else [])))"

definition education_terms :: "string list" where
  "education_terms = [''bachelor'', ''master'', ''phd'', ''degree'', ''university'', ''college'']"

fun education_loop :: "string \<Rightarrow> resume \<Rightarrow> string list \<Rightarrow> evidence_item list" where
  "education_loop job_text r [] = []"
| "education_loop job_text r (term # terms) =
     (if str_in term job_text \<and> str_in term (lower (content r))
      then \<lparr>ev_requirement = ''Education: '' @ term,
            ev_evidence = find_context term (content r),
            ev_type = education_match\<rparr> # education_loop job_text r terms
      else education_loop job_text r terms)"

definition check_education_match :: "job \<Rightarrow> resume \<Rightarrow> evidence_item list" where
  "check_education_match j r = education_loop (lower (description j)) r education_terms"

fun skill_loop :: "resume \<Rightarrow> string list \<Rightarrow> evidence_item list" where
  "skill_loop r [] = []"
| "skill_loop r (requirement # job_requirements) =
     (let requirement_lower = lower requirement
      in if str_in requirement_lower (lower (content r))
         then \<lparr>ev_requirement = requirement,
               ev_evidence = find_context requirement_lower (content r),
               ev_type = skill_match\<rparr> # skill_loop r job_requirements
         else skill_loop r job_requirements)"

definition extract_evidence :: "job \<Rightarrow> resume \<Rightarrow> evidence_item list" where
  "extract_evidence j r =
     skill_loop r (requirements j) @ check_experience_match j r @ check_education_match j r"

fun missing_loop :: "string \<Rightarrow> string list \<Rightarrow> string list" where
  "missing_loop resume_content [] = []"
| "missing_loop resume_content (requirement # job_requirements) =
     (let requirement_lower = lower requirement
      in if \<not> str_in requirement_lower resume_content
            \<and> \<not> has_similar_term requirement_lower resume_content
         then requirement # missing_loop resume_content job_requirements
         else missing_loop resume_content job_requirements)"

definition find_missing_requirements :: "job \<Rightarrow> resume \<Rightarrow> string list" where
  "find_missing_requirements j r = missing_loop (lower (content r)) (requirements j)"

fun score_resumes ::
  "'f numeric \<Rightarrow> job \<Rightarrow> real list \<Rightarrow> resume list \<Rightarrow> error + 'f candidate_match list" where
  "score_resumes lib j job_embedding [] = Inr []"
| "score_resumes lib j job_embedding (r # rs) =
     (case embeddings r of
        None \<Rightarrow> score_resumes lib j job_embedding rs
      | Some e \<Rightarrow>
          if e = [] then score_resumes lib j job_embedding rs
          else (case calculate_similarity lib job_embedding e of
                  Inl err \<Rightarrow> Inl err
                | Inr sim \<Rightarrow>
                    (case score_resumes lib j job_embedding rs of
                       Inl err \<Rightarrow> Inl err
                     | Inr matches \<Rightarrow>
                         Inr (\<lparr>m_resume_id = resume_id r,
                               m_filename = original_filename r,
                               m_score = sim,
                               m_evidence = extract_evidence j r,
                               m_missing_requirements = find_missing_requirements j r\<rparr>
                              # matches))))"

definition job_text_of :: "job \<Rightarrow> string" where
  \<comment> \<open>\<^verbatim>\<open>f"{job.title} {job.description} {' '.join(job.requirements)}"\<close>\<close>
  "job_text_of j = title j @ '' '' @ description j @ '' '' @ str_join '' '' (requirements j)"

definition match_candidates ::
  "('f::linorder) numeric \<Rightarrow> (string \<Rightarrow> real list) \<Rightarrow> int \<Rightarrow> int \<Rightarrow> int \<Rightarrow> db
     \<Rightarrow> error + 'f candidate_match list" where
  "match_candidates lib encode jid top_n uid d =
     (case find (\<lambda>j. job_id j = jid \<and> job_owner_id j = uid) (jobs d) of
        None \<Rightarrow> Inl (ValueError ''Job not found'')
      | Some j \<Rightarrow>
          (let rs = filter (\<lambda>r. owner_id r = uid) (resumes d)
           in if rs = [] then Inr []
              else (let job_embedding = generate_embeddings encode (job_text_of j)
                    in case score_resumes lib j job_embedding rs of
                         Inl err \<Rightarrow> Inl err
                       | Inr matches \<Rightarrow> Inr (slice_to (sort_desc m_score matches) top_n))))"

section \<open>Files on disk (\<^verbatim>\<open>services/file_processing_service.py\<close>)\<close>











section \<open>Uploading resumes (\<^verbatim>\<open>services/resume_service.py\<close>)\<close>






section \<open>Question answering by keywords (\<^verbatim>\<open>services/simple_rag_service.py\<close>)\<close>

record relevant =
  rel_resume :: resume
  rel_score :: nat

record source =
  src_resume_id :: int
  src_filename :: string
  similarity_score :: real
  snippets :: "string list"

record ask_response =
  answer :: string
  sources :: "source list"

fun count_words :: "string list \<Rightarrow> string \<Rightarrow> nat" where
  "count_words [] content_lower = 0"
| "count_words (word # query_words) content_lower =
     (if str_in word content_lower then 1 else 0) + count_words query_words content_lower"

fun relevant_loop :: "string list \<Rightarrow> resume list \<Rightarrow> relevant list" where
  "relevant_loop query_words [] = []"
| "relevant_loop query_words (r # rs) =
     (let score = count_words query_words (lower (content r))
      in if score > 0 then \<lparr>rel_resume = r, rel_score = score\<rparr> # relevant_loop query_words rs
         else relevant_loop query_words rs)"

fun any_word_in :: "string list \<Rightarrow> string \<Rightarrow> bool" where
  \<comment> \<open>\<^verbatim>\<open>any(word in sentence_lower for word in query_words)\<close>\<close>
  "any_word_in [] sentence_lower = False"
| "any_word_in (word # query_words) sentence_lower =
     (str_in word sentence_lower \<or> any_word_in query_words sentence_lower)"

fun snippet_loop :: "string list \<Rightarrow> string list \<Rightarrow> string list" where
  "snippet_loop query_words [] = []"
| "snippet_loop query_words (sentence # sentences) =
     (if any_word_in query_words (lower sentence)
      then (let snippet = take 200 (str_strip sentence)
            in if length snippet > 50 then snippet # snippet_loop query_words sentences
               else snippet_loop query_words sentences)
      else snippet_loop query_words sentences)"

text \<open>
  \<^verbatim>\<open>_extract_snippets\<close>; \<^verbatim>\<open>_extract_relevant_snippets\<close> of \<^verbatim>\<open>services/rag_service.py\<close> has
  the same body.
\<close>

definition extract_snippets :: "string \<Rightarrow> string \<Rightarrow> string list" where
  "extract_snippets query content' =
     (let query_words = str_split (lower query);
          sentences = re_split False (Plus (Set (\<lambda>c. c \<in> set ''.!?''))) content'
      in take 3 (snippet_loop query_words sentences))"

definition py_truediv :: "nat \<Rightarrow> nat \<Rightarrow> error + real" where
  "py_truediv a b = (if b = 0 then Inl ZeroDivisionError else Inr (real a / real b))"

fun sources_loop :: "string \<Rightarrow> string list \<Rightarrow> relevant list \<Rightarrow> error + source list" where
  "sources_loop query query_words [] = Inr []"
| "sources_loop query query_words (item # top_resumes) =
     (case py_truediv (rel_score item) (length query_words) of
        Inl err \<Rightarrow> Inl err
      | Inr normalized \<Rightarrow>
          (case sources_loop query query_words top_resumes of
             Inl err \<Rightarrow> Inl err
           | Inr rest \<Rightarrow>
               Inr (\<lparr>src_resume_id = resume_id (rel_resume item),
                     src_filename = original_filename (rel_resume item),
                     similarity_score = normalized,
                     snippets = extract_snippets query (content (rel_resume item))\<rparr> # rest)))"

text \<open>
  The ranking of \<^verbatim>\<open>ask_question\<close> before the answer is worded: the resumes with a
  positive score, sorted and cut to \<open>k\<close>.
\<close>

definition top_resumes_of :: "string \<Rightarrow> int \<Rightarrow> resume list \<Rightarrow> relevant list" where
  "top_resumes_of query k rs =
     slice_to (sort_desc rel_score (relevant_loop (str_split (lower query)) rs)) k"

text \<open>
  \<open>generate_answer\<close> stands for \<^verbatim>\<open>_generate_simple_answer\<close>, which words the answer from the
  top resumes and raises nothing; its text depends on the iteration order of a Python set.
\<close>

definition ask_question ::
  "(string \<Rightarrow> relevant list \<Rightarrow> string) \<Rightarrow> string \<Rightarrow> int \<Rightarrow> int \<Rightarrow> db \<Rightarrow> error + ask_response" where
  "ask_question generate_answer query k uid d =
     (let rs = filter (\<lambda>r. owner_id r = uid) (resumes d)
      in if rs = []
         then Inr \<lparr>answer = ''No resumes found. Please upload some resumes first.'',
                   sources = []\<rparr>
         else (let top_resumes = top_resumes_of query k rs;
                   answer' = generate_answer query top_resumes
               in case sources_loop query (str_split (lower query)) top_resumes of
                    Inl err \<Rightarrow> Inl err
                  | Inr sources' \<Rightarrow> Inr \<lparr>answer = answer', sources = sources'\<rparr>))"

section \<open>Two arithmetics\<close>

text \<open>
  A double is a finite value (read as the real number it denotes; the sign of a zero is
  not kept), an infinity (\<open>True\<close> for the positive one) or nan. An operation of IEEE 754
  returns the exact result whenever that is a double; otherwise the result is rounded, or
  overflows to an infinity: \<open>rnd\<close> stands for that.
\<close>

datatype fl = Finite real | Infinity bool | NaN

definition is_double :: "real \<Rightarrow> bool" where
  "is_double x =
     (\<exists>m e :: int. \<bar>m\<bar> < 2 ^ 53 \<and> - 1074 \<le> e \<and> e \<le> 971 \<and> x = real_of_int m * 2 powr real_of_int e)"

definition fl_result :: "(real \<Rightarrow> fl) \<Rightarrow> real \<Rightarrow> fl" where
  "fl_result rnd x = (if is_double x then Finite x else rnd x)"

fun fl_times :: "(real \<Rightarrow> fl) \<Rightarrow> fl \<Rightarrow> fl \<Rightarrow> fl" where
  "fl_times rnd (Finite x) (Finite y) = fl_result rnd (x * y)"
| "fl_times rnd (Finite x) (Infinity s) = (if x = 0 then NaN else Infinity (s = (0 < x)))"
| "fl_times rnd (Infinity s) (Finite y) = (if y = 0 then NaN else Infinity (s = (0 < y)))"
| "fl_times rnd (Infinity s) (Infinity t) = Infinity (s = t)"
| "fl_times rnd _ _ = NaN"

fun fl_plus :: "(real \<Rightarrow> fl) \<Rightarrow> fl \<Rightarrow> fl \<Rightarrow> fl" where
  "fl_plus rnd (Finite x) (Finite y) = fl_result rnd (x + y)"
| "fl_plus rnd (Finite x) (Infinity s) = Infinity s"
| "fl_plus rnd (Infinity s) (Finite y) = Infinity s"
| "fl_plus rnd (Infinity s) (Infinity t) = (if s = t then Infinity s else NaN)"
| "fl_plus rnd _ _ = NaN"

text \<open>
  The only zero divisor of \<open>calculate_similarity\<close> is a product of two norms that has
  underflowed, a positive zero.
\<close>

fun fl_divide :: "(real \<Rightarrow> fl) \<Rightarrow> fl \<Rightarrow> fl \<Rightarrow> fl" where
  "fl_divide rnd (Finite x) (Finite y) =
     (if y = 0 then (if x = 0 then NaN else Infinity (0 < x)) else fl_result rnd (x / y))"
| "fl_divide rnd (Finite x) (Infinity s) = Finite 0"
| "fl_divide rnd (Infinity s) (Finite y) = Infinity (s = (0 \<le> y))"
| "fl_divide rnd _ _ = NaN"

fun fl_sqrt :: "(real \<Rightarrow> fl) \<Rightarrow> fl \<Rightarrow> fl" where
  "fl_sqrt rnd (Finite x) = (if x < 0 then NaN else fl_result rnd (sqrt x))"
| "fl_sqrt rnd (Infinity s) = (if s then Infinity True else NaN)"
| "fl_sqrt rnd NaN = NaN"

fun fl_is_zero :: "fl \<Rightarrow> bool" where
  "fl_is_zero (Finite x) = (x = 0)"
| "fl_is_zero _ = False"

text \<open>
  numpy on doubles: the dot product sums the products (here in index order; the library
  may associate the sum differently, which changes nothing for a vector of one entry), and
  the norm of a vector is the square root of its dot product with itself.
\<close>

definition fl_dot :: "(real \<Rightarrow> fl) \<Rightarrow> real list \<Rightarrow> real list \<Rightarrow> error + fl" where
  "fl_dot rnd a b =
     (if length a \<noteq> length b then Inl (ValueError ''shapes not aligned'')
      else Inr (foldl (fl_plus rnd) (Finite 0)
                  (map (\<lambda>(x, y). fl_times rnd (Finite x) (Finite y)) (zip a b))))"

definition fl_norm :: "(real \<Rightarrow> fl) \<Rightarrow> real list \<Rightarrow> fl" where
  "fl_norm rnd a =
     fl_sqrt rnd (foldl (fl_plus rnd) (Finite 0)
                    (map (\<lambda>x. fl_times rnd (Finite x) (Finite x)) a))"

definition ieee_numeric :: "(real \<Rightarrow> fl) \<Rightarrow> fl numeric" where
  "ieee_numeric rnd =
     \<lparr>np_dot = fl_dot rnd, np_norm = fl_norm rnd, f_times = fl_times rnd,
      f_divide = fl_divide rnd, f_is_zero = fl_is_zero, f_zero = Finite 0\<rparr>"

text \<open>
  Arithmetic without rounding, for the sample vectors of small integers: every
  intermediate value of theirs is a double, so that IEEE arithmetic is exact on them.
\<close>

definition exact_numeric :: "real numeric" where
  "exact_numeric =
     \<lparr>np_dot = (\<lambda>a b. if length a \<noteq> length b then Inl (ValueError ''shapes not aligned'')
                       else Inr (sum_list (map (\<lambda>(x, y). x * y) (zip a b)))),
      np_norm = (\<lambda>a. sqrt (sum_list (map (\<lambda>x. x * x) a))),
      f_times = (\<lambda>x y. x * y), f_divide = (\<lambda>x y. x / y), f_is_zero = (\<lambda>x. x = 0),
      f_zero = 0\<rparr>"

section \<open>Runs of characters, directly\<close>

text \<open>
  What the spec's words say about the two simplest uses of a pattern, without the
  matcher: \<open>sub_runs P rep\<close> replaces every maximal run of characters in \<open>P\<close> by \<open>rep\<close>, and
  \<open>split_runs P\<close> cuts a text at every maximal run of characters in \<open>P\<close>.
\<close>

function sub_runs :: "(char \<Rightarrow> bool) \<Rightarrow> string \<Rightarrow> string \<Rightarrow> string" where
  "sub_runs P rep [] = []"
| "sub_runs P rep (c # cs) =
     (if P c then rep @ sub_runs P rep (dropWhile P cs) else c # sub_runs P rep cs)"
  by pat_completeness auto
termination
  by (relation "measure (\<lambda>(P, rep, s). length s)")
     (auto simp: le_imp_less_Suc length_dropWhile_le)

function split_runs :: "(char \<Rightarrow> bool) \<Rightarrow> string \<Rightarrow> string \<Rightarrow> string list" where
  "split_runs P [] piece = [rev piece]"
| "split_runs P (c # cs) piece =
     (if P c then rev piece # split_runs P (dropWhile P cs) [] else split_runs P cs (c # piece))"
  by pat_completeness auto
termination
  by (relation "measure (\<lambda>(P, s, piece). length s)")
     (auto simp: le_imp_less_Suc length_dropWhile_le)

section \<open>Ranked lists\<close>

text \<open>The order of a ranked list, and the order of its ties against the corpus.\<close>

definition descending :: "('a \<Rightarrow> 'k::linorder) \<Rightarrow> 'a list \<Rightarrow> bool" where
  "descending f ys = (\<forall>i. Suc i < length ys \<longrightarrow> f (ys ! Suc i) \<le> f (ys ! i))"

definition ties_in_order :: "('a \<Rightarrow> 'k) \<Rightarrow> 'a list \<Rightarrow> 'a list \<Rightarrow> bool" where
  "ties_in_order f corpus ys =
     (\<forall>s. prefix (filter (\<lambda>x. f x = s) ys) (filter (\<lambda>x. f x = s) corpus))"

fun has_embeddings :: "real list option \<Rightarrow> bool" where
  "has_embeddings None = False"
| "has_embeddings (Some v) = (v \<noteq> [])"

section \<open>Sample data\<close>

definition sample_resume :: resume where
  "sample_resume =
     \<lparr>resume_id = 1, filename = ''a.txt_00'', original_filename = ''a.txt'',
      file_path = ''uploads/a.txt_00'', file_size = 12, content = ''Python dev'',
      embeddings = None, metadata = None, idempotency_key = Some ''k1'', owner_id = 7\<rparr>"

definition sample_db :: db where
  "sample_db = \<lparr>resumes = [sample_resume], jobs = []\<rparr>"

definition sample_job :: job where
  "sample_job = \<lparr>job_id = 3, title = ''Engineer'', description = ''5 years of experience required'',
      requirements = [''Python'', ''5 years of experience''], job_owner_id = 7\<rparr>"







definition experienced_resume :: resume where
  "experienced_resume =
     \<lparr>resume_id = 2, filename = ''b.txt_01'', original_filename = ''b.txt'',
      file_path = ''uploads/b.txt_01'', file_size = 40,
      content = ''Python developer with 7 years experience'',
      embeddings = None, metadata = None, idempotency_key = Some ''k2'', owner_id = 7\<rparr>"

definition scenario_job :: job where
  "scenario_job = \<lparr>job_id = 4, title = ''Platform engineer'', description = ''Run our clusters'',
      requirements = [''Python'', ''Kubernetes''], job_owner_id = 7\<rparr>"

definition vec_job :: job where
  "vec_job = \<lparr>job_id = 5, title = ''t'', description = ''d'', requirements = [], job_owner_id = 7\<rparr>"

definition vec_resume :: "int \<Rightarrow> string \<Rightarrow> real list \<Rightarrow> resume" where
  "vec_resume i name e =
     \<lparr>resume_id = i, filename = name, original_filename = name, file_path = name, file_size = 2,
      content = ''cv'', embeddings = Some e, metadata = None, idempotency_key = None,
      owner_id = 7\<rparr>"

definition vec_db :: db where
  "vec_db = \<lparr>resumes = [vec_resume 12 ''c'' [0, 1], vec_resume 10 ''a'' [1, 0],
                          vec_resume 11 ''b'' [2, 0]],
              jobs = [vec_job]\<rparr>"

definition vec_match :: "int \<Rightarrow> string \<Rightarrow> real \<Rightarrow> real candidate_match" where
  "vec_match i name s =
     \<lparr>m_resume_id = i, m_filename = name, m_score = s, m_evidence = [],
      m_missing_requirements = []\<rparr>"

definition vec_doc :: "int \<Rightarrow> real list \<Rightarrow> document" where
  "vec_doc i e = \<lparr>doc_id = i, doc_content = ''cv'', doc_filename = ''f'', doc_embeddings = Some e\<rparr>"

definition ask_db :: db where
  "ask_db = \<lparr>resumes = [sample_resume, experienced_resume], jobs = []\<rparr>"

definition fifty_chars :: string where
  "fifty_chars = ''Senior python developer building the data platform''"




section \<open>Properties\<close>

subsection \<open>Slices and sorting\<close>

lemma set_slice_to: "set (slice_to xs k) \<subseteq> set xs"
  by (auto simp: slice_to_def dest: in_set_takeD)

lemma set_sort_desc: "set (sort_desc f xs) = set xs"
  by (simp add: sort_desc_def)

subsection \<open>Scores of the keyword question-answering path\<close>

lemma count_words_le: "count_words qs c \<le> length qs"
  by (induction qs) auto

lemma relevant_loop_scores:
  "x \<in> set (relevant_loop qs rs) \<Longrightarrow> 0 < rel_score x \<and> rel_score x \<le> length qs"
  by (induction rs) (auto simp: Let_def count_words_le split: if_splits)

lemma top_resumes_scores:
  "x \<in> set (top_resumes_of q k rs) \<Longrightarrow>
     0 < rel_score x \<and> rel_score x \<le> length (str_split (lower q))"
  using set_slice_to relevant_loop_scores
  by (fastforce simp: top_resumes_of_def set_sort_desc)

lemma sources_loop_total:
  "(\<And>x. x \<in> set tops \<Longrightarrow> 0 < rel_score x \<and> rel_score x \<le> length qs) \<Longrightarrow>
   \<exists>ss. sources_loop q qs tops = Inr ss \<and>
        (\<forall>s \<in> set ss. 0 < similarity_score s \<and> similarity_score s \<le> 1)"
proof (induction tops)
  case Nil
  then show ?case by simp
next
  case (Cons item tops)
  then obtain ss where ss: "sources_loop q qs tops = Inr ss"
      "\<forall>s \<in> set ss. 0 < similarity_score s \<and> similarity_score s \<le> 1"
    by auto
  from Cons.prems have b: "0 < rel_score item" "rel_score item \<le> length qs"
    by auto
  then have "length qs \<noteq> 0" by auto
  with b ss show ?case
    by (auto simp: py_truediv_def)
qed

text \<open>
  Claim C10. In the keyword question-answering path the division
  \<^verbatim>\<open>score / len(query_words)\<close> never divides by zero, whatever the query (the empty
  query included), the cut-off and the corpus: \<open>ask_question\<close> always returns a response,
  and every \<open>similarity_score\<close> it reports is greater than 0 and at most 1.
\<close>

theorem ask_question_scores:
  "\<exists>resp. ask_question generate_answer q k uid d = Inr resp \<and>
     (\<forall>s \<in> set (sources resp). 0 < similarity_score s \<and> similarity_score s \<le> 1)"
proof (cases "filter (\<lambda>r. owner_id r = uid) (resumes d) = []")
  case True
  then show ?thesis by (simp add: ask_question_def)
next
  case False
  obtain ss where "sources_loop q (str_split (lower q))
        (top_resumes_of q k (filter (\<lambda>r. owner_id r = uid) (resumes d))) = Inr ss"
      "\<forall>s \<in> set ss. 0 < similarity_score s \<and> similarity_score s \<le> 1"
    using sources_loop_total [of "top_resumes_of q k (filter (\<lambda>r. owner_id r = uid) (resumes d))"
        "str_split (lower q)" q] top_resumes_scores
    by blast
  with False show ?thesis
    by (simp add: ask_question_def Let_def)
qed

theorem ask_question_scores_witness:
  "ask_question (\<lambda>q t. []) ''python java'' 5 7 sample_db =
     Inr \<lparr>answer = [], sources = [\<lparr>src_resume_id = 1, src_filename = ''a.txt'',
            similarity_score = 1 / 2, snippets = []\<rparr>]\<rparr>
   \<and> 0 < similarity_score \<lparr>src_resume_id = 1, src_filename = ''a.txt'',
            similarity_score = 1 / 2, snippets = []\<rparr>
   \<and> similarity_score \<lparr>src_resume_id = 1, src_filename = ''a.txt'',
            similarity_score = 1 / 2, snippets = []\<rparr> \<le> 1"
proof -
  have run: "ask_question (\<lambda>q t. []) ''python java'' 5 7 sample_db =
     Inr \<lparr>answer = [], sources = [\<lparr>src_resume_id = 1, src_filename = ''a.txt'',
            similarity_score = 1 / 2, snippets = []\<rparr>]\<rparr>"
    by code_simp
  from ask_question_scores [of "\<lambda>q t. []" "''python java''" 5 7 sample_db]
  obtain resp where resp: "ask_question (\<lambda>q t. []) ''python java'' 5 7 sample_db = Inr resp"
    and bounds: "\<forall>s \<in> set (sources resp). 0 < similarity_score s \<and> similarity_score s \<le> 1"
    by blast
  from resp run have "resp = \<lparr>answer = [], sources = [\<lparr>src_resume_id = 1,
            src_filename = ''a.txt'', similarity_score = 1 / 2, snippets = []\<rparr>]\<rparr>"
    by simp
  with bounds run show ?thesis
    by simp
qed

subsection \<open>Uploads and the resumes that are scored\<close>














subsection \<open>Evidence and missing requirements\<close>

lemma has_similar_words_iff:
  "has_similar_words ws c \<longleftrightarrow> (\<exists>w \<in> set ws. length w > 3 \<and> str_in w c)"
  by (induction ws) auto

lemma has_similar_term_iff:
  "has_similar_term r c \<longleftrightarrow> (\<exists>w \<in> set (str_split r). length w > 3 \<and> str_in w c)"
  by (simp add: has_similar_term_def has_similar_words_iff)

lemma set_missing_loop:
  "set (missing_loop c reqs) =
     {r \<in> set reqs. \<not> str_in (lower r) c \<and> \<not> has_similar_term (lower r) c}"
  by (induction reqs) (auto simp: Let_def)

lemma skill_loop_requirement:
  "(\<exists>e \<in> set (skill_loop res reqs). ev_requirement e = r) \<longleftrightarrow>
     r \<in> set reqs \<and> str_in (lower r) (lower (content res))"
  by (induction reqs) (auto simp: Let_def)

lemma skill_loop_type: "e \<in> set (skill_loop res reqs) \<Longrightarrow> ev_type e = skill_match"
  by (induction reqs) (auto simp: Let_def split: if_splits)

lemma experience_type: "e \<in> set (check_experience_match j res) \<Longrightarrow> ev_type e = experience_match"
  by (auto simp: check_experience_match_def Let_def split: list.splits if_splits)

lemma education_loop_type: "e \<in> set (education_loop t res terms) \<Longrightarrow> ev_type e = education_match"
  by (induction terms) (auto split: if_splits)

lemma skill_evidence_iff:
  "(\<exists>e \<in> set (extract_evidence j res). ev_requirement e = r \<and> ev_type e = skill_match) \<longleftrightarrow>
     r \<in> set (requirements j) \<and> str_in (lower r) (lower (content res))"
proof -
  have "(\<exists>e \<in> set (extract_evidence j res). ev_requirement e = r \<and> ev_type e = skill_match) \<longleftrightarrow>
        (\<exists>e \<in> set (skill_loop res (requirements j)). ev_requirement e = r)"
    using skill_loop_type experience_type education_loop_type
    by (fastforce simp: extract_evidence_def check_education_match_def)
  then show ?thesis by (simp add: skill_loop_requirement)
qed

text \<open>
  Claim C4. For a requirement of the job whose lower-case form occurs in the lower-case
  resume text, or does not occur while no whitespace token of it longer than 3 characters
  occurs there either, exactly one of the two holds: the requirement has a \<open>skill_match\<close>
  evidence item, or it is in the list of missing requirements.
\<close>

theorem evidence_missing_partition:
  "r \<in> set (requirements j) \<Longrightarrow>
   str_in (lower r) (lower (content res)) \<or>
     (\<not> str_in (lower r) (lower (content res)) \<and>
      \<not> (\<exists>w \<in> set (str_split (lower r)). length w > 3 \<and> str_in w (lower (content res)))) \<Longrightarrow>
   (\<exists>e \<in> set (extract_evidence j res). ev_requirement e = r \<and> ev_type e = skill_match) \<noteq>
     (r \<in> set (find_missing_requirements j res))"
  unfolding skill_evidence_iff find_missing_requirements_def set_missing_loop has_similar_term_iff
  by blast

theorem evidence_missing_partition_witness:
  "''Python'' \<in> set (requirements scenario_job) \<and>
   str_in (lower ''Python'') (lower (content experienced_resume)) \<and>
   ((\<exists>e \<in> set (extract_evidence scenario_job experienced_resume).
        ev_requirement e = ''Python'' \<and> ev_type e = skill_match) \<noteq>
      (''Python'' \<in> set (find_missing_requirements scenario_job experienced_resume))) \<and>
   ''Kubernetes'' \<in> set (requirements scenario_job) \<and>
   \<not> str_in (lower ''Kubernetes'') (lower (content experienced_resume)) \<and>
   \<not> (\<exists>w \<in> set (str_split (lower ''Kubernetes'')).
         length w > 3 \<and> str_in w (lower (content experienced_resume))) \<and>
   ((\<exists>e \<in> set (extract_evidence scenario_job experienced_resume).
        ev_requirement e = ''Kubernetes'' \<and> ev_type e = skill_match) \<noteq>
      (''Kubernetes'' \<in> set (find_missing_requirements scenario_job experienced_resume)))"
proof -
  have p1: "''Python'' \<in> set (requirements scenario_job)"
    and p2: "str_in (lower ''Python'') (lower (content experienced_resume))"
    and k1: "''Kubernetes'' \<in> set (requirements scenario_job)"
    and k2: "\<not> str_in (lower ''Kubernetes'') (lower (content experienced_resume))"
    and k3: "\<not> (\<exists>w \<in> set (str_split (lower ''Kubernetes'')).
         length w > 3 \<and> str_in w (lower (content experienced_resume)))"
    by code_simp+
  from evidence_missing_partition [OF p1 disjI1 [OF p2]]
       evidence_missing_partition [OF k1 disjI2 [OF conjI [OF k2 k3]]]
       p1 p2 k1 k2 k3
  show ?thesis by blast
qed

text \<open>
  Claim C6, as amended. A requirement whose lower-case form does not occur in the
  lower-case resume text, but of which a whitespace token longer than 3 characters does,
  is not listed as missing and gets no \<open>skill_match\<close> evidence item. (An
  \<open>experience_match\<close> or \<open>education_match\<close> item of the independent checks can still carry
  the same requirement text.)
\<close>

theorem similar_term_outputs:
  "r \<in> set (requirements j) \<Longrightarrow>
   \<not> str_in (lower r) (lower (content res)) \<Longrightarrow>
   \<exists>w \<in> set (str_split (lower r)). length w > 3 \<and> str_in w (lower (content res)) \<Longrightarrow>
   r \<notin> set (find_missing_requirements j res) \<and>
   \<not> (\<exists>e \<in> set (extract_evidence j res). ev_requirement e = r \<and> ev_type e = skill_match)"
  unfolding skill_evidence_iff find_missing_requirements_def set_missing_loop has_similar_term_iff
  by blast

theorem similar_term_outputs_witness:
  "''5 years of experience'' \<in> set (requirements sample_job) \<and>
   \<not> str_in (lower ''5 years of experience'') (lower (content experienced_resume)) \<and>
   (\<exists>w \<in> set (str_split (lower ''5 years of experience'')).
       length w > 3 \<and> str_in w (lower (content experienced_resume))) \<and>
   ''5 years of experience'' \<notin> set (find_missing_requirements sample_job experienced_resume) \<and>
   \<not> (\<exists>e \<in> set (extract_evidence sample_job experienced_resume).
         ev_requirement e = ''5 years of experience'' \<and> ev_type e = skill_match)"
proof -
  have h1: "''5 years of experience'' \<in> set (requirements sample_job)"
    and h2: "\<not> str_in (lower ''5 years of experience'') (lower (content experienced_resume))"
    and h3: "\<exists>w \<in> set (str_split (lower ''5 years of experience'')).
       length w > 3 \<and> str_in w (lower (content experienced_resume))"
    by code_simp+
  from similar_term_outputs [OF h1 h2 h3] h1 h2 h3
  show ?thesis by blast
qed

text \<open>
  Claim C6 as stated fails: the requirement \<open>5 years of experience\<close> takes the similar-term
  path (its token \<open>years\<close> occurs in the resume, the whole requirement does not), and the
  evidence list carries an item for it, of type \<open>experience_match\<close>.
\<close>

theorem similar_term_evidence_counterexample:
  "''5 years of experience'' \<in> set (requirements sample_job) \<and>
   \<not> str_in (lower ''5 years of experience'') (lower (content experienced_resume)) \<and>
   ''years'' \<in> set (str_split (lower ''5 years of experience'')) \<and>
   length ''years'' > 3 \<and> str_in ''years'' (lower (content experienced_resume)) \<and>
   \<lparr>ev_requirement = ''5 years of experience'',
    ev_evidence = ''Candidate has 7 years of experience'',
    ev_type = experience_match\<rparr> \<in> set (extract_evidence sample_job experienced_resume)"
  by code_simp

subsection \<open>Ranking: order, ties and the cut-off\<close>

lemma slice_to_take: "slice_to xs k = take (if k < 0 then nat (int (length xs) + k) else nat k) xs"
  by (simp add: slice_to_def)

lemma sort_desc_sorted_wrt: "sorted_wrt (\<lambda>a b. f b \<le> f a) (sort_desc f xs)"
proof -
  have "sorted (map f (sort_key f (rev xs)))" by (rule sorted_sort_key)
  then have "sorted_wrt (\<lambda>a b. f a \<le> f b) (sort_key f (rev xs))"
    by (simp add: sorted_map)
  then show ?thesis
    by (simp add: sort_desc_def sorted_wrt_rev)
qed

lemma sort_desc_stable: "filter (\<lambda>x. f x = s) (sort_desc f xs) = filter (\<lambda>x. f x = s) xs"
proof -
  have "filter (\<lambda>x. f x = s) (sort_desc f xs) = rev (filter (\<lambda>x. f x = s) (sort_key f (rev xs)))"
    by (simp add: sort_desc_def rev_filter)
  also have "\<dots> = rev (filter (\<lambda>x. f x = s) (rev xs))"
    by (simp only: sort_key_stable)
  also have "\<dots> = filter (\<lambda>x. f x = s) xs"
    by (simp add: rev_filter)
  finally show ?thesis .
qed

lemma prefix_filter_take: "prefix (filter P (take n xs)) (filter P xs)"
proof -
  have "filter P xs = filter P (take n xs) @ filter P (drop n xs)"
    by (metis append_take_drop_id filter_append)
  then show ?thesis by (simp add: prefix_def)
qed

lemma ranked_slice:
  "descending f (slice_to (sort_desc f xs) k) \<and> ties_in_order f xs (slice_to (sort_desc f xs) k)"
proof
  have "sorted_wrt (\<lambda>a b. f b \<le> f a) (slice_to (sort_desc f xs) k)"
    unfolding slice_to_take by (intro sorted_wrt_take sort_desc_sorted_wrt)
  then show "descending f (slice_to (sort_desc f xs) k)"
    by (auto simp: descending_def sorted_wrt_iff_nth_less)
next
  show "ties_in_order f xs (slice_to (sort_desc f xs) k)"
    unfolding ties_in_order_def slice_to_take
    using prefix_filter_take [of _ _ "sort_desc f xs"] sort_desc_stable [of f _ xs]
    by metis
qed

lemma score_resumes_order:
  "score_resumes lib j e rs = Inr ms \<Longrightarrow>
     map m_resume_id ms = map resume_id (filter (\<lambda>r. has_embeddings (embeddings r)) rs)"
  by (induction rs arbitrary: ms)
     (auto split: option.splits if_splits sum.splits)

lemma score_documents_order:
  "score_documents lib e ds = Inr ss \<Longrightarrow>
     map sim_document ss = filter (\<lambda>doc. has_embeddings (doc_embeddings doc)) ds"
  by (induction ds arbitrary: ss)
     (auto split: option.splits if_splits sum.splits)

lemma sources_loop_maps:
  "sources_loop q qs tops = Inr ss \<Longrightarrow>
     map src_resume_id ss = map (\<lambda>t. resume_id (rel_resume t)) tops \<and>
     map similarity_score ss = map (\<lambda>t. real (rel_score t) / real (length qs)) tops"
  by (induction tops arbitrary: ss) (auto simp: py_truediv_def split: sum.splits if_splits)

lemma descending_scaled:
  assumes "descending rel_score tops"
    and "map similarity_score ss = map (\<lambda>t. real (rel_score t) / real n) tops"
  shows "descending similarity_score ss"
proof -
  have len: "length ss = length tops"
    using assms(2) by (metis length_map)
  have nth: "similarity_score (ss ! i) = real (rel_score (tops ! i)) / real n" if "i < length ss" for i
    using assms(2) that len by (metis nth_map)
  show ?thesis
    unfolding descending_def
  proof (intro allI impI)
    fix i assume i: "Suc i < length ss"
    then have "rel_score (tops ! Suc i) \<le> rel_score (tops ! i)"
      using assms(1) len by (simp add: descending_def)
    then have "real (rel_score (tops ! Suc i)) / real n \<le> real (rel_score (tops ! i)) / real n"
      by (simp add: divide_right_mono)
    with i show "similarity_score (ss ! Suc i) \<le> similarity_score (ss ! i)"
      by (simp add: nth)
  qed
qed

text \<open>
  Claim C3. The ranked list that \<open>match_candidates\<close>, \<open>find_similar_documents\<close> and
  \<open>ask_question\<close> return is in non-increasing order of score (every entry scores at least
  as much as the next one), and results with equal scores keep the order their documents
  have in the corpus: for every score, the results with that score are an initial segment
  of the scored corpus entries with that score, in corpus order.
\<close>

theorem ranking_sorted_and_stable:
  "(match_candidates lib encode jid top_n uid d = Inr ms \<longrightarrow>
      (\<exists>j corpus. find (\<lambda>j. job_id j = jid \<and> job_owner_id j = uid) (jobs d) = Some j \<and>
         score_resumes lib j (generate_embeddings encode (job_text_of j))
           (filter (\<lambda>r. owner_id r = uid) (resumes d)) = Inr corpus \<and>
         map m_resume_id corpus =
           map resume_id (filter (\<lambda>r. has_embeddings (embeddings r))
                            (filter (\<lambda>r. owner_id r = uid) (resumes d))) \<and>
         descending m_score ms \<and> ties_in_order m_score corpus ms)) \<and>
   (find_similar_documents lib query_embedding docs top_k = Inr sims \<longrightarrow>
      (\<exists>corpus. score_documents lib query_embedding docs = Inr corpus \<and>
         map sim_document corpus = filter (\<lambda>doc. has_embeddings (doc_embeddings doc)) docs \<and>
         descending similarity sims \<and> ties_in_order similarity corpus sims)) \<and>
   (ask_question generate_answer q k uid' d' = Inr resp \<longrightarrow>
      (\<exists>tops. tops = top_resumes_of q k (filter (\<lambda>r. owner_id r = uid') (resumes d')) \<and>
         map src_resume_id (sources resp) = map (\<lambda>t. resume_id (rel_resume t)) tops \<and>
         descending similarity_score (sources resp) \<and>
         descending rel_score tops \<and>
         ties_in_order rel_score
           (relevant_loop (str_split (lower q)) (filter (\<lambda>r. owner_id r = uid') (resumes d'))) tops))"
proof (intro conjI impI)
  assume a: "match_candidates lib encode jid top_n uid d = Inr ms"
  then obtain j where j: "find (\<lambda>j. job_id j = jid \<and> job_owner_id j = uid) (jobs d) = Some j"
    by (auto simp: match_candidates_def split: option.splits)
  let ?rs = "filter (\<lambda>r. owner_id r = uid) (resumes d)"
  let ?e = "generate_embeddings encode (job_text_of j)"
  show "\<exists>j corpus. find (\<lambda>j. job_id j = jid \<and> job_owner_id j = uid) (jobs d) = Some j \<and>
         score_resumes lib j (generate_embeddings encode (job_text_of j)) ?rs = Inr corpus \<and>
         map m_resume_id corpus = map resume_id (filter (\<lambda>r. has_embeddings (embeddings r)) ?rs) \<and>
         descending m_score ms \<and> ties_in_order m_score corpus ms"
  proof (cases "?rs = []")
    case True
    with a j have "ms = []" by (simp add: match_candidates_def)
    with True j show ?thesis
      by (intro exI [of _ j] exI [of _ "[]"]) (simp add: descending_def ties_in_order_def)
  next
    case False
    with a j obtain corpus where c: "score_resumes lib j ?e ?rs = Inr corpus"
        and ms: "ms = slice_to (sort_desc m_score corpus) top_n"
      by (auto simp: match_candidates_def Let_def split: sum.splits)
    show ?thesis
      using j c ms score_resumes_order [OF c] ranked_slice [of m_score corpus top_n]
      by blast
  qed
next
  assume "find_similar_documents lib query_embedding docs top_k = Inr sims"
  then obtain corpus where c: "score_documents lib query_embedding docs = Inr corpus"
      and s: "sims = slice_to (sort_desc similarity corpus) top_k"
    by (auto simp: find_similar_documents_def split: sum.splits)
  show "\<exists>corpus. score_documents lib query_embedding docs = Inr corpus \<and>
         map sim_document corpus = filter (\<lambda>doc. has_embeddings (doc_embeddings doc)) docs \<and>
         descending similarity sims \<and> ties_in_order similarity corpus sims"
    using c s score_documents_order [OF c] ranked_slice [of similarity corpus top_k]
    by blast
next
  assume a: "ask_question generate_answer q k uid' d' = Inr resp"
  let ?rs = "filter (\<lambda>r. owner_id r = uid') (resumes d')"
  let ?tops = "top_resumes_of q k ?rs"
  have r: "descending rel_score ?tops \<and>
      ties_in_order rel_score (relevant_loop (str_split (lower q)) ?rs) ?tops"
    unfolding top_resumes_of_def by (rule ranked_slice)
  have s: "map src_resume_id (sources resp) = map (\<lambda>t. resume_id (rel_resume t)) ?tops \<and>
      map similarity_score (sources resp) =
        map (\<lambda>t. real (rel_score t) / real (length (str_split (lower q)))) ?tops"
  proof (cases "?rs = []")
    case True
    with a have "sources resp = []" by (auto simp: ask_question_def)
    moreover from True have "?tops = []"
      by (simp add: top_resumes_of_def slice_to_def sort_desc_def)
    ultimately show ?thesis by simp
  next
    case False
    with a have "sources_loop q (str_split (lower q)) ?tops = Inr (sources resp)"
      by (auto simp: ask_question_def Let_def split: sum.splits)
    then show ?thesis by (rule sources_loop_maps)
  qed
  with r have "descending similarity_score (sources resp)"
    using descending_scaled by blast
  with r s show "\<exists>tops. tops = ?tops \<and>
         map src_resume_id (sources resp) = map (\<lambda>t. resume_id (rel_resume t)) tops \<and>
         descending similarity_score (sources resp) \<and>
         descending rel_score tops \<and>
         ties_in_order rel_score (relevant_loop (str_split (lower q)) ?rs) tops"
    by blast
qed

lemma cosine_orthogonal: "calculate_similarity exact_numeric [1, 0] [0, 1] = Inr 0"
  and cosine_same: "calculate_similarity exact_numeric [1, 0] [1, 0] = Inr 1"
  and cosine_parallel: "calculate_similarity exact_numeric [1, 0] [2, 0] = Inr 1"
  by (simp_all add: calculate_similarity_def exact_numeric_def)

lemma vec_job_no_evidence: "extract_evidence vec_job (vec_resume i n e) = []"
  "find_missing_requirements vec_job (vec_resume i n e) = []"
proof -
  have "re_findall False years_group years_tail (lower ''d'') = []"
    by code_simp
  moreover have "check_education_match vec_job (vec_resume i n e) = []"
    by (simp add: check_education_match_def education_terms_def vec_job_def lower_def
        lower_char_def isupper_def ord_def)
  ultimately show "extract_evidence vec_job (vec_resume i n e) = []"
    by (simp add: extract_evidence_def check_experience_match_def vec_job_def)
  show "find_missing_requirements vec_job (vec_resume i n e) = []"
    by (simp add: find_missing_requirements_def vec_job_def)
qed

lemma vec_resume_fields:
  "embeddings (vec_resume i n e) = Some e" "owner_id (vec_resume i n e) = 7"
  "resume_id (vec_resume i n e) = i" "original_filename (vec_resume i n e) = n"
  by (simp_all add: vec_resume_def)

lemma vec_job_fields: "job_id vec_job = 5" "job_owner_id vec_job = 7"
  by (simp_all add: vec_job_def)

lemma vec_db_matches: "match_candidates exact_numeric (\<lambda>t. [1, 0]) 5 2 7 vec_db =
    Inr [vec_match 10 ''a'' 1, vec_match 11 ''b'' 1]"
  by (simp add: match_candidates_def vec_db_def generate_embeddings_def Let_def
        cosine_orthogonal cosine_same cosine_parallel vec_job_no_evidence
        sort_desc_def slice_to_def vec_match_def vec_resume_fields vec_job_fields)

lemma vec_db_scored: "score_resumes exact_numeric vec_job [1, 0] (resumes vec_db) =
    Inr [vec_match 12 ''c'' 0, vec_match 10 ''a'' 1, vec_match 11 ''b'' 1]"
  by (simp add: vec_db_def cosine_orthogonal cosine_same cosine_parallel vec_job_no_evidence
        vec_match_def vec_resume_fields)

lemma vec_docs_similar: "find_similar_documents exact_numeric [1, 0] [vec_doc 12 [0, 1], vec_doc 10 [1, 0], vec_doc 11 [2, 0]] 2
    = Inr [\<lparr>sim_document = vec_doc 10 [1, 0], similarity = 1\<rparr>,
           \<lparr>sim_document = vec_doc 11 [2, 0], similarity = 1\<rparr>]"
  by (simp add: find_similar_documents_def cosine_orthogonal cosine_same cosine_parallel
        sort_desc_def slice_to_def vec_doc_def)

lemma ask_db_answer: "ask_question (\<lambda>q t. []) ''python java'' 5 7 ask_db =
     Inr \<lparr>answer = [], sources = [
       \<lparr>src_resume_id = 1, src_filename = ''a.txt'', similarity_score = 1 / 2, snippets = []\<rparr>,
       \<lparr>src_resume_id = 2, src_filename = ''b.txt'', similarity_score = 1 / 2, snippets = []\<rparr>]\<rparr>"
  by code_simp

theorem ranking_sorted_and_stable_witness:
  "match_candidates exact_numeric (\<lambda>t. [1, 0]) 5 2 7 vec_db = Inr [vec_match 10 ''a'' 1, vec_match 11 ''b'' 1] \<and>
   descending m_score [vec_match 10 ''a'' 1, vec_match 11 ''b'' 1] \<and>
   ties_in_order m_score [vec_match 12 ''c'' 0, vec_match 10 ''a'' 1, vec_match 11 ''b'' 1]
     [vec_match 10 ''a'' 1, vec_match 11 ''b'' 1] \<and>
   find_similar_documents exact_numeric [1, 0] [vec_doc 12 [0, 1], vec_doc 10 [1, 0], vec_doc 11 [2, 0]] 2
     = Inr [\<lparr>sim_document = vec_doc 10 [1, 0], similarity = 1\<rparr>,
            \<lparr>sim_document = vec_doc 11 [2, 0], similarity = 1\<rparr>] \<and>
   descending similarity [\<lparr>sim_document = vec_doc 10 [1, 0], similarity = 1 :: real\<rparr>,
            \<lparr>sim_document = vec_doc 11 [2, 0], similarity = 1\<rparr>] \<and>
   ask_question (\<lambda>q t. []) ''python java'' 5 7 ask_db =
     Inr \<lparr>answer = [], sources = [
       \<lparr>src_resume_id = 1, src_filename = ''a.txt'', similarity_score = 1 / 2, snippets = []\<rparr>,
       \<lparr>src_resume_id = 2, src_filename = ''b.txt'', similarity_score = 1 / 2, snippets = []\<rparr>]\<rparr> \<and>
   descending similarity_score [
       \<lparr>src_resume_id = 1, src_filename = ''a.txt'', similarity_score = 1 / 2, snippets = []\<rparr>,
       \<lparr>src_resume_id = 2, src_filename = ''b.txt'', similarity_score = 1 / 2, snippets = []\<rparr>]"
proof -
  note inst = ranking_sorted_and_stable [where lib = exact_numeric and encode = "\<lambda>t. [1, 0]" and jid = 5 and top_n = 2
      and uid = 7 and d = vec_db and ms = "[vec_match 10 ''a'' 1, vec_match 11 ''b'' 1]"
      and query_embedding = "[1, 0]"
      and docs = "[vec_doc 12 [0, 1], vec_doc 10 [1, 0], vec_doc 11 [2, 0]]" and top_k = 2
      and sims = "[\<lparr>sim_document = vec_doc 10 [1, 0], similarity = 1\<rparr>,
        \<lparr>sim_document = vec_doc 11 [2, 0], similarity = 1\<rparr>]"
      and generate_answer = "\<lambda>q t. []" and q = "''python java''" and k = 5 and uid' = 7
      and d' = ask_db]
  have f: "find (\<lambda>j. job_id j = 5 \<and> job_owner_id j = 7) (jobs vec_db) = Some vec_job"
    and rs: "filter (\<lambda>r. owner_id r = 7) (resumes vec_db) = resumes vec_db"
    by (simp_all add: vec_db_def vec_job_fields vec_resume_fields)
  note i1 = inst [THEN conjunct1, THEN mp, OF vec_db_matches]
  note i2 = inst [THEN conjunct2, THEN conjunct1, THEN mp, OF vec_docs_similar]
  note i3 = inst [THEN conjunct2, THEN conjunct2, THEN mp, OF ask_db_answer]
  from i1 obtain j corpus where
      "find (\<lambda>j. job_id j = 5 \<and> job_owner_id j = 7) (jobs vec_db) = Some j"
      "score_resumes exact_numeric j (generate_embeddings (\<lambda>t. [1, 0]) (job_text_of j))
         (filter (\<lambda>r. owner_id r = 7) (resumes vec_db)) = Inr corpus"
      and d: "descending m_score [vec_match 10 ''a'' 1, vec_match 11 ''b'' 1]"
      and t: "ties_in_order m_score corpus [vec_match 10 ''a'' 1, vec_match 11 ''b'' 1]"
    by blast
  with f rs vec_db_scored
  have "corpus = [vec_match 12 ''c'' 0, vec_match 10 ''a'' 1, vec_match 11 ''b'' 1]"
    by (simp add: generate_embeddings_def)
  with t have t': "ties_in_order m_score
      [vec_match 12 ''c'' 0, vec_match 10 ''a'' 1, vec_match 11 ''b'' 1]
      [vec_match 10 ''a'' 1, vec_match 11 ''b'' 1]"
    by simp
  from i2 have d': "descending similarity
      [\<lparr>sim_document = vec_doc 10 [1, 0], similarity = 1 :: real\<rparr>,
       \<lparr>sim_document = vec_doc 11 [2, 0], similarity = 1\<rparr>]"
    by (elim exE conjE)
  from i3
  have d3: "descending similarity_score [
       \<lparr>src_resume_id = 1, src_filename = ''a.txt'', similarity_score = 1 / 2, snippets = []\<rparr>,
       \<lparr>src_resume_id = 2, src_filename = ''b.txt'', similarity_score = 1 / 2, snippets = []\<rparr>]"
    by auto
  from vec_db_matches d t' vec_docs_similar d' ask_db_answer d3 show ?thesis
    by blast
qed

lemma slice_to_all: "int (length xs) \<le> k \<Longrightarrow> slice_to xs k = xs"
  by (simp add: slice_to_def)

lemma slice_to_zero: "slice_to xs 0 = []"
  by (simp add: slice_to_def)

lemma slice_to_negative: "k < 0 \<Longrightarrow> slice_to xs k = take (length xs - nat (- k)) xs"
proof -
  assume "k < 0"
  then have "nat (int (length xs) + k) = length xs - nat (- k)" by linarith
  with \<open>k < 0\<close> show ?thesis by (simp add: slice_to_def)
qed

lemma slice_to_Nil: "slice_to [] k = []"
  by (simp add: slice_to_def)

lemma length_sort_desc: "length (sort_desc f xs) = length xs"
  by (simp add: sort_desc_def)

lemma slice_to_ranked:
  assumes "ys = slice_to (sort_desc f xs) k"
  shows "(int (length xs) \<le> k \<longrightarrow>
            ys = sort_desc f xs \<and> length ys = length xs \<and> set ys = set xs \<and> descending f ys) \<and>
         (k = 0 \<longrightarrow> ys = []) \<and>
         (k < 0 \<longrightarrow> ys = take (length xs - nat (- k)) (sort_desc f xs))"
proof (intro conjI impI)
  assume "int (length xs) \<le> k"
  then have "slice_to (sort_desc f xs) k = sort_desc f xs"
    by (intro slice_to_all) (simp add: length_sort_desc)
  with assms show "ys = sort_desc f xs" by simp
  then show "length ys = length xs" "set ys = set xs"
    by (simp_all add: length_sort_desc set_sort_desc)
  from assms show "descending f ys"
    using ranked_slice [of f xs k] by simp
next
  assume "k = 0"
  with assms show "ys = []" by (simp add: slice_to_zero)
next
  assume "k < 0"
  with assms show "ys = take (length xs - nat (- k)) (sort_desc f xs)"
    by (simp add: slice_to_negative length_sort_desc)
qed

lemma match_candidates_Inr:
  assumes "match_candidates lib encode jid top_n uid d = Inr ms"
  shows "\<exists>j corpus. find (\<lambda>j. job_id j = jid \<and> job_owner_id j = uid) (jobs d) = Some j \<and>
           score_resumes lib j (generate_embeddings encode (job_text_of j))
             (filter (\<lambda>r. owner_id r = uid) (resumes d)) = Inr corpus \<and>
           ms = slice_to (sort_desc m_score corpus) top_n"
proof -
  from assms obtain j where j: "find (\<lambda>j. job_id j = jid \<and> job_owner_id j = uid) (jobs d) = Some j"
    by (auto simp: match_candidates_def split: option.splits)
  let ?rs = "filter (\<lambda>r. owner_id r = uid) (resumes d)"
  show ?thesis
  proof (cases "?rs = []")
    case True
    with assms j have "ms = []" by (simp add: match_candidates_def)
    with True j show ?thesis
      by (intro exI [of _ j] exI [of _ "[]"]) (simp add: slice_to_def sort_desc_def)
  next
    case False
    with assms j show ?thesis
      by (auto simp: match_candidates_def Let_def split: sum.splits)
  qed
qed

lemma match_candidates_Inl:
  assumes "match_candidates lib encode jid top_n uid d = Inl err"
  shows "match_candidates lib encode jid top_n' uid d = Inl err"
proof (cases "find (\<lambda>j. job_id j = jid \<and> job_owner_id j = uid) (jobs d)")
  case None
  with assms show ?thesis by (simp add: match_candidates_def)
next
  case (Some j)
  with assms show ?thesis
    by (auto simp: match_candidates_def Let_def split: sum.splits if_splits)
qed

lemma ask_question_sources:
  "\<exists>resp. ask_question generate_answer q k uid d = Inr resp \<and>
     sources_loop q (str_split (lower q))
       (top_resumes_of q k (filter (\<lambda>r. owner_id r = uid) (resumes d))) = Inr (sources resp)"
proof (cases "filter (\<lambda>r. owner_id r = uid) (resumes d) = []")
  case True
  then show ?thesis
    by (simp add: ask_question_def top_resumes_of_def slice_to_def sort_desc_def)
next
  case False
  obtain ss where "sources_loop q (str_split (lower q))
        (top_resumes_of q k (filter (\<lambda>r. owner_id r = uid) (resumes d))) = Inr ss"
    using sources_loop_total [of "top_resumes_of q k (filter (\<lambda>r. owner_id r = uid) (resumes d))"
        "str_split (lower q)" q] top_resumes_scores
    by blast
  with False show ?thesis
    by (simp add: ask_question_def Let_def)
qed

text \<open>
  Claim C5, as amended. The cut-off never causes an error, and the result of a ranking
  operation is the \<^verbatim>\<open>[:top_n]\<close> slice of the whole ranking, which is the scored corpus (one
  entry for every document with embeddings, in corpus order) sorted by descending score. A cut-off of at least the number of scored entries returns every
  one of them, in ranked order; a cut-off of 0 returns none; a negative cut-off returns
  the ranking without its last \<open>|top_n|\<close> entries. Whether \<open>match_candidates\<close> or
  \<open>find_similar_documents\<close> raises does not depend on the cut-off, and \<open>ask_question\<close> never
  raises.
\<close>

theorem cut_off_policy:
  "(match_candidates lib encode jid top_n uid d = Inr ms \<longrightarrow>
      (\<exists>j corpus. find (\<lambda>j. job_id j = jid \<and> job_owner_id j = uid) (jobs d) = Some j \<and>
         score_resumes lib j (generate_embeddings encode (job_text_of j))
           (filter (\<lambda>r. owner_id r = uid) (resumes d)) = Inr corpus \<and>
         map m_resume_id corpus =
           map resume_id (filter (\<lambda>r. has_embeddings (embeddings r))
                            (filter (\<lambda>r. owner_id r = uid) (resumes d))) \<and>
         ms = slice_to (sort_desc m_score corpus) top_n \<and>
         (int (length corpus) \<le> top_n \<longrightarrow>
            ms = sort_desc m_score corpus \<and> length ms = length corpus \<and> set ms = set corpus \<and>
            descending m_score ms) \<and>
         (top_n = 0 \<longrightarrow> ms = []) \<and>
         (top_n < 0 \<longrightarrow> ms = take (length corpus - nat (- top_n)) (sort_desc m_score corpus)))) \<and>
   (match_candidates lib encode jid top_n uid d = Inl err \<longrightarrow>
      match_candidates lib encode jid top_n' uid d = Inl err) \<and>
   (find_similar_documents lib query_embedding docs top_k = Inr sims \<longrightarrow>
      (\<exists>corpus. score_documents lib query_embedding docs = Inr corpus \<and>
         map sim_document corpus = filter (\<lambda>doc. has_embeddings (doc_embeddings doc)) docs \<and>
         sims = slice_to (sort_desc similarity corpus) top_k \<and>
         (int (length corpus) \<le> top_k \<longrightarrow>
            sims = sort_desc similarity corpus \<and> length sims = length corpus \<and>
            set sims = set corpus \<and> descending similarity sims) \<and>
         (top_k = 0 \<longrightarrow> sims = []) \<and>
         (top_k < 0 \<longrightarrow>
            sims = take (length corpus - nat (- top_k)) (sort_desc similarity corpus)))) \<and>
   (find_similar_documents lib query_embedding docs top_k = Inl err' \<longrightarrow>
      find_similar_documents lib query_embedding docs top_k' = Inl err') \<and>
   (\<exists>resp corpus. ask_question generate_answer q k uid' d' = Inr resp \<and>
      corpus = relevant_loop (str_split (lower q)) (filter (\<lambda>r. owner_id r = uid') (resumes d')) \<and>
      map src_resume_id (sources resp) =
        map (\<lambda>t. resume_id (rel_resume t)) (slice_to (sort_desc rel_score corpus) k) \<and>
      (int (length corpus) \<le> k \<longrightarrow>
         map src_resume_id (sources resp) =
           map (\<lambda>t. resume_id (rel_resume t)) (sort_desc rel_score corpus) \<and>
         length (sources resp) = length corpus) \<and>
      (k = 0 \<longrightarrow> sources resp = []) \<and>
      (k < 0 \<longrightarrow>
         map src_resume_id (sources resp) =
           map (\<lambda>t. resume_id (rel_resume t))
             (take (length corpus - nat (- k)) (sort_desc rel_score corpus))))"
proof (intro conjI impI)
  assume "match_candidates lib encode jid top_n uid d = Inr ms"
  then obtain j corpus where
      j: "find (\<lambda>j. job_id j = jid \<and> job_owner_id j = uid) (jobs d) = Some j"
      and c: "score_resumes lib j (generate_embeddings encode (job_text_of j))
             (filter (\<lambda>r. owner_id r = uid) (resumes d)) = Inr corpus"
      and ms: "ms = slice_to (sort_desc m_score corpus) top_n"
    using match_candidates_Inr by blast
  note r = slice_to_ranked [OF ms]
  show "\<exists>j corpus. find (\<lambda>j. job_id j = jid \<and> job_owner_id j = uid) (jobs d) = Some j \<and>
         score_resumes lib j (generate_embeddings encode (job_text_of j))
           (filter (\<lambda>r. owner_id r = uid) (resumes d)) = Inr corpus \<and>
         map m_resume_id corpus =
           map resume_id (filter (\<lambda>r. has_embeddings (embeddings r))
                            (filter (\<lambda>r. owner_id r = uid) (resumes d))) \<and>
         ms = slice_to (sort_desc m_score corpus) top_n \<and>
         (int (length corpus) \<le> top_n \<longrightarrow>
            ms = sort_desc m_score corpus \<and> length ms = length corpus \<and> set ms = set corpus \<and>
            descending m_score ms) \<and>
         (top_n = 0 \<longrightarrow> ms = []) \<and>
         (top_n < 0 \<longrightarrow> ms = take (length corpus - nat (- top_n)) (sort_desc m_score corpus))"
    by (intro exI [of _ j] exI [of _ corpus] conjI j c ms score_resumes_order [OF c]
        r [THEN conjunct1]
        r [THEN conjunct2, THEN conjunct1] r [THEN conjunct2, THEN conjunct2])
next
  assume "match_candidates lib encode jid top_n uid d = Inl err"
  then show "match_candidates lib encode jid top_n' uid d = Inl err"
    by (rule match_candidates_Inl)
next
  assume "find_similar_documents lib query_embedding docs top_k = Inr sims"
  then obtain corpus where c: "score_documents lib query_embedding docs = Inr corpus"
      and s: "sims = slice_to (sort_desc similarity corpus) top_k"
    by (auto simp: find_similar_documents_def split: sum.splits)
  note r = slice_to_ranked [OF s]
  show "\<exists>corpus. score_documents lib query_embedding docs = Inr corpus \<and>
         map sim_document corpus = filter (\<lambda>doc. has_embeddings (doc_embeddings doc)) docs \<and>
         sims = slice_to (sort_desc similarity corpus) top_k \<and>
         (int (length corpus) \<le> top_k \<longrightarrow>
            sims = sort_desc similarity corpus \<and> length sims = length corpus \<and>
            set sims = set corpus \<and> descending similarity sims) \<and>
         (top_k = 0 \<longrightarrow> sims = []) \<and>
         (top_k < 0 \<longrightarrow>
            sims = take (length corpus - nat (- top_k)) (sort_desc similarity corpus))"
    by (intro exI [of _ corpus] conjI c s score_documents_order [OF c] r [THEN conjunct1]
        r [THEN conjunct2, THEN conjunct1] r [THEN conjunct2, THEN conjunct2])
next
  assume "find_similar_documents lib query_embedding docs top_k = Inl err'"
  then show "find_similar_documents lib query_embedding docs top_k' = Inl err'"
    by (auto simp: find_similar_documents_def split: sum.splits)
next
  let ?rs = "filter (\<lambda>r. owner_id r = uid') (resumes d')"
  let ?corpus = "relevant_loop (str_split (lower q)) ?rs"
  let ?f = "\<lambda>t. resume_id (rel_resume t)"
  obtain resp where resp: "ask_question generate_answer q k uid' d' = Inr resp"
    and src: "sources_loop q (str_split (lower q)) (top_resumes_of q k ?rs) = Inr (sources resp)"
    using ask_question_sources by blast
  have tops: "top_resumes_of q k ?rs = slice_to (sort_desc rel_score ?corpus) k"
    by (simp add: top_resumes_of_def)
  from sources_loop_maps [OF src] tops
  have m: "map src_resume_id (sources resp) = map ?f (slice_to (sort_desc rel_score ?corpus) k)"
    by simp
  note r = slice_to_ranked [where f = rel_score and xs = ?corpus and k = k, OF refl]
  have all: "map src_resume_id (sources resp) = map ?f (sort_desc rel_score ?corpus) \<and>
      length (sources resp) = length ?corpus" if "int (length ?corpus) \<le> k"
  proof -
    from r that have e: "slice_to (sort_desc rel_score ?corpus) k = sort_desc rel_score ?corpus"
      by blast
    with m have m': "map src_resume_id (sources resp) = map ?f (sort_desc rel_score ?corpus)"
      by simp
    then have "length (sources resp) = length (sort_desc rel_score ?corpus)"
      by (metis length_map)
    with m' show ?thesis by (simp add: length_sort_desc)
  qed
  have zero: "sources resp = []" if "k = 0"
  proof -
    from r that have "slice_to (sort_desc rel_score ?corpus) k = []" by blast
    with m show ?thesis by simp
  qed
  have neg: "map src_resume_id (sources resp) =
      map ?f (take (length ?corpus - nat (- k)) (sort_desc rel_score ?corpus))" if "k < 0"
  proof -
    from r that have "slice_to (sort_desc rel_score ?corpus) k =
        take (length ?corpus - nat (- k)) (sort_desc rel_score ?corpus)" by blast
    with m show ?thesis by simp
  qed
  from resp m all zero neg
  show "\<exists>resp corpus. ask_question generate_answer q k uid' d' = Inr resp \<and>
      corpus = relevant_loop (str_split (lower q)) (filter (\<lambda>r. owner_id r = uid') (resumes d')) \<and>
      map src_resume_id (sources resp) =
        map (\<lambda>t. resume_id (rel_resume t)) (slice_to (sort_desc rel_score corpus) k) \<and>
      (int (length corpus) \<le> k \<longrightarrow>
         map src_resume_id (sources resp) =
           map (\<lambda>t. resume_id (rel_resume t)) (sort_desc rel_score corpus) \<and>
         length (sources resp) = length corpus) \<and>
      (k = 0 \<longrightarrow> sources resp = []) \<and>
      (k < 0 \<longrightarrow>
         map src_resume_id (sources resp) =
           map (\<lambda>t. resume_id (rel_resume t))
             (take (length corpus - nat (- k)) (sort_desc rel_score corpus)))"
    by (intro exI [of _ resp] exI [of _ ?corpus]) simp
qed

lemma vec_db_ranked: "match_candidates exact_numeric (\<lambda>t. [1, 0]) 5 n 7 vec_db =
    Inr (slice_to [vec_match 10 ''a'' 1, vec_match 11 ''b'' 1, vec_match 12 ''c'' 0] n)"
  by (simp add: match_candidates_def vec_db_def generate_embeddings_def Let_def
        cosine_orthogonal cosine_same cosine_parallel vec_job_no_evidence
        sort_desc_def vec_match_def vec_resume_fields vec_job_fields)

lemma vec_db_no_job: "match_candidates exact_numeric (\<lambda>t. [1, 0]) 99 n 7 vec_db =
    Inl (ValueError ''Job not found'')"
  by (simp add: match_candidates_def vec_db_def vec_job_fields)

lemma vec_docs_scored:
  "score_documents exact_numeric [1, 0] [vec_doc 12 [0, 1], vec_doc 10 [1, 0], vec_doc 11 [2, 0]] =
     Inr [\<lparr>sim_document = vec_doc 12 [0, 1], similarity = 0\<rparr>,
          \<lparr>sim_document = vec_doc 10 [1, 0], similarity = 1\<rparr>,
          \<lparr>sim_document = vec_doc 11 [2, 0], similarity = 1\<rparr>]"
  by (simp add: cosine_orthogonal cosine_same cosine_parallel vec_doc_def)

lemma vec_docs_ranked:
  "find_similar_documents exact_numeric [1, 0]
     [vec_doc 12 [0, 1], vec_doc 10 [1, 0], vec_doc 11 [2, 0]] 7 =
     Inr [\<lparr>sim_document = vec_doc 10 [1, 0], similarity = 1\<rparr>,
          \<lparr>sim_document = vec_doc 11 [2, 0], similarity = 1\<rparr>,
          \<lparr>sim_document = vec_doc 12 [0, 1], similarity = 0\<rparr>]"
  by (simp add: find_similar_documents_def cosine_orthogonal cosine_same cosine_parallel
        sort_desc_def slice_to_def vec_doc_def)

lemma vec_docs_misaligned:
  "find_similar_documents exact_numeric [1, 0] [vec_doc 12 [1]] n =
     Inl (ValueError ''shapes not aligned'')"
  by (simp add: find_similar_documents_def calculate_similarity_def exact_numeric_def vec_doc_def)

lemma ask_db_corpus:
  "length (relevant_loop (str_split (lower ''python java''))
     (filter (\<lambda>r. owner_id r = 7) (resumes ask_db))) = 2"
  by code_simp

theorem cut_off_policy_witness:
  "match_candidates exact_numeric (\<lambda>t. [1, 0]) 5 7 7 vec_db =
     Inr [vec_match 10 ''a'' 1, vec_match 11 ''b'' 1, vec_match 12 ''c'' 0] \<and>
   score_resumes exact_numeric vec_job [1, 0] (resumes vec_db) =
     Inr [vec_match 12 ''c'' 0, vec_match 10 ''a'' 1, vec_match 11 ''b'' 1] \<and>
   [vec_match 10 ''a'' 1, vec_match 11 ''b'' 1, vec_match 12 ''c'' 0] =
     sort_desc m_score [vec_match 12 ''c'' 0, vec_match 10 ''a'' 1, vec_match 11 ''b'' 1] \<and>
   set [vec_match 10 ''a'' 1, vec_match 11 ''b'' 1, vec_match 12 ''c'' 0] =
     set [vec_match 12 ''c'' 0, vec_match 10 ''a'' 1, vec_match 11 ''b'' 1] \<and>
   descending m_score [vec_match 10 ''a'' 1, vec_match 11 ''b'' 1, vec_match 12 ''c'' 0] \<and>
   match_candidates exact_numeric (\<lambda>t. [1, 0]) 5 (- 1) 7 vec_db =
     Inr [vec_match 10 ''a'' 1, vec_match 11 ''b'' 1] \<and>
   [vec_match 10 ''a'' 1, vec_match 11 ''b'' 1] =
     take (3 - nat (- (- 1)))
       (sort_desc m_score [vec_match 12 ''c'' 0, vec_match 10 ''a'' 1, vec_match 11 ''b'' 1]) \<and>
   match_candidates exact_numeric (\<lambda>t. [1, 0]) 5 0 7 vec_db = Inr [] \<and>
   match_candidates exact_numeric (\<lambda>t. [1, 0]) 99 2 7 vec_db = Inl (ValueError ''Job not found'') \<and>
   match_candidates exact_numeric (\<lambda>t. [1, 0]) 99 0 7 vec_db = Inl (ValueError ''Job not found'') \<and>
   find_similar_documents exact_numeric [1, 0]
     [vec_doc 12 [0, 1], vec_doc 10 [1, 0], vec_doc 11 [2, 0]] 7 =
     Inr [\<lparr>sim_document = vec_doc 10 [1, 0], similarity = 1\<rparr>,
          \<lparr>sim_document = vec_doc 11 [2, 0], similarity = 1\<rparr>,
          \<lparr>sim_document = vec_doc 12 [0, 1], similarity = 0\<rparr>] \<and>
   set [\<lparr>sim_document = vec_doc 10 [1, 0], similarity = 1 :: real\<rparr>,
        \<lparr>sim_document = vec_doc 11 [2, 0], similarity = 1\<rparr>,
        \<lparr>sim_document = vec_doc 12 [0, 1], similarity = 0\<rparr>] =
     set [\<lparr>sim_document = vec_doc 12 [0, 1], similarity = 0\<rparr>,
          \<lparr>sim_document = vec_doc 10 [1, 0], similarity = 1\<rparr>,
          \<lparr>sim_document = vec_doc 11 [2, 0], similarity = 1\<rparr>] \<and>
   find_similar_documents exact_numeric [1, 0] [vec_doc 12 [1]] 2 =
     Inl (ValueError ''shapes not aligned'') \<and>
   find_similar_documents exact_numeric [1, 0] [vec_doc 12 [1]] 0 =
     Inl (ValueError ''shapes not aligned'') \<and>
   (\<exists>resp. ask_question (\<lambda>q t. []) ''python java'' 5 7 ask_db = Inr resp \<and>
      map src_resume_id (sources resp) = [1, 2] \<and> length (sources resp) = 2)"
proof -
  let ?a = "vec_match 10 ''a'' 1" and ?b = "vec_match 11 ''b'' 1" and ?c = "vec_match 12 ''c'' 0"
  let ?docs = "[vec_doc 12 [0, 1], vec_doc 10 [1, 0], vec_doc 11 [2, 0]]"
  let ?da = "\<lparr>sim_document = vec_doc 10 [1, 0], similarity = 1 :: real\<rparr>"
  let ?db = "\<lparr>sim_document = vec_doc 11 [2, 0], similarity = 1 :: real\<rparr>"
  let ?dc = "\<lparr>sim_document = vec_doc 12 [0, 1], similarity = 0 :: real\<rparr>"
  have f: "find (\<lambda>j. job_id j = 5 \<and> job_owner_id j = 7) (jobs vec_db) = Some vec_job"
    and rs: "filter (\<lambda>r. owner_id r = 7) (resumes vec_db) = resumes vec_db"
    by (simp_all add: vec_db_def vec_job_fields vec_resume_fields)
  have e7: "match_candidates exact_numeric (\<lambda>t. [1, 0]) 5 7 7 vec_db = Inr [?a, ?b, ?c]"
    and e1: "match_candidates exact_numeric (\<lambda>t. [1, 0]) 5 (- 1) 7 vec_db = Inr [?a, ?b]"
    and e0: "match_candidates exact_numeric (\<lambda>t. [1, 0]) 5 0 7 vec_db = Inr []"
    by (simp_all add: vec_db_ranked slice_to_def)
  have corpus_eq: "corpus = [?c, ?a, ?b]"
    if "find (\<lambda>j. job_id j = 5 \<and> job_owner_id j = 7) (jobs vec_db) = Some j"
      and "score_resumes exact_numeric j (generate_embeddings (\<lambda>t. [1, 0]) (job_text_of j))
         (filter (\<lambda>r. owner_id r = 7) (resumes vec_db)) = Inr corpus" for j corpus
    using that f rs vec_db_scored by (simp add: generate_embeddings_def)
  note p7 = cut_off_policy [where lib = exact_numeric and encode = "\<lambda>t. [1, 0]" and jid = 5
      and top_n = 7 and uid = 7 and d = vec_db and ms = "[?a, ?b, ?c]"
      and query_embedding = "[1, 0]" and docs = ?docs and top_k = 7 and sims = "[?da, ?db, ?dc]"
      and generate_answer = "\<lambda>q t. []" and q = "''python java''" and k = 5 and uid' = 7
      and d' = ask_db]
  note m1 = cut_off_policy [where lib = exact_numeric and encode = "\<lambda>t. [1, 0]" and jid = 5
      and top_n = "- 1" and uid = 7 and d = vec_db and ms = "[?a, ?b]"]
  note z0 = cut_off_policy [where lib = exact_numeric and encode = "\<lambda>t. [1, 0]" and jid = 5
      and top_n = 0 and uid = 7 and d = vec_db and ms = "[]"]
  note er = cut_off_policy [where lib = exact_numeric and encode = "\<lambda>t. [1, 0]" and jid = 99
      and top_n = 2 and top_n' = 0 and uid = 7 and d = vec_db
      and err = "ValueError ''Job not found''"
      and query_embedding = "[1, 0]" and docs = "[vec_doc 12 [1]]" and top_k = 2 and top_k' = 0
      and err' = "ValueError ''shapes not aligned''"]
  from p7 [THEN conjunct1, THEN mp, OF e7] obtain j corpus where
      "find (\<lambda>j. job_id j = 5 \<and> job_owner_id j = 7) (jobs vec_db) = Some j"
      "score_resumes exact_numeric j (generate_embeddings (\<lambda>t. [1, 0]) (job_text_of j))
         (filter (\<lambda>r. owner_id r = 7) (resumes vec_db)) = Inr corpus"
      and all: "int (length corpus) \<le> 7 \<longrightarrow>
         [?a, ?b, ?c] = sort_desc m_score corpus \<and> length [?a, ?b, ?c] = length corpus \<and>
         set [?a, ?b, ?c] = set corpus \<and> descending m_score [?a, ?b, ?c]"
    by blast
  then have ceq: "corpus = [?c, ?a, ?b]" using corpus_eq by blast
  have len3: "int (length [?c, ?a, ?b]) \<le> 7" by simp
  note all' = all [unfolded ceq, THEN mp, OF len3]
  note r7 = all' [THEN conjunct1] all' [THEN conjunct2, THEN conjunct2, THEN conjunct1]
    all' [THEN conjunct2, THEN conjunct2, THEN conjunct2]
  from m1 [THEN conjunct1, THEN mp, OF e1] obtain j' corpus' where
      "find (\<lambda>j. job_id j = 5 \<and> job_owner_id j = 7) (jobs vec_db) = Some j'"
      "score_resumes exact_numeric j' (generate_embeddings (\<lambda>t. [1, 0]) (job_text_of j'))
         (filter (\<lambda>r. owner_id r = 7) (resumes vec_db)) = Inr corpus'"
      and neg: "(- 1 :: int) < 0 \<longrightarrow>
         [?a, ?b] = take (length corpus' - nat (- (- 1))) (sort_desc m_score corpus')"
    by blast
  then have ceq': "corpus' = [?c, ?a, ?b]" using corpus_eq by blast
  have neg1: "(- 1 :: int) < 0" by simp
  have len3': "length [?c, ?a, ?b] = 3" by simp
  note r1 = neg [unfolded ceq' len3', THEN mp, OF neg1]
  from z0 [THEN conjunct1, THEN mp, OF e0] have r0: "([] :: real candidate_match list) = []"
    by blast
  have x1: "match_candidates exact_numeric (\<lambda>t. [1, 0]) 99 0 7 vec_db =
      Inl (ValueError ''Job not found'')"
    by (rule er [THEN conjunct2, THEN conjunct1, THEN mp, OF vec_db_no_job])
  from p7 [THEN conjunct2, THEN conjunct2, THEN conjunct1, THEN mp, OF vec_docs_ranked]
  obtain dcorpus where "score_documents exact_numeric [1, 0] ?docs = Inr dcorpus"
      and dall: "int (length dcorpus) \<le> 7 \<longrightarrow>
        [?da, ?db, ?dc] = sort_desc similarity dcorpus \<and> length [?da, ?db, ?dc] = length dcorpus \<and>
        set [?da, ?db, ?dc] = set dcorpus \<and> descending similarity [?da, ?db, ?dc]"
    by blast
  with vec_docs_scored have deq: "dcorpus = [?dc, ?da, ?db]" by simp
  have dlen3: "int (length [?dc, ?da, ?db]) \<le> 7" by simp
  note rd = dall [unfolded deq, THEN mp, OF dlen3, THEN conjunct2, THEN conjunct2, THEN conjunct1]
  have x2: "find_similar_documents exact_numeric [1, 0] [vec_doc 12 [1]] 0 =
      Inl (ValueError ''shapes not aligned'')"
    by (rule er [THEN conjunct2, THEN conjunct2, THEN conjunct2, THEN conjunct1, THEN mp,
          OF vec_docs_misaligned])
  from p7 [THEN conjunct2, THEN conjunct2, THEN conjunct2, THEN conjunct2]
  obtain resp acorpus where resp: "ask_question (\<lambda>q t. []) ''python java'' 5 7 ask_db = Inr resp"
      and ac: "acorpus = relevant_loop (str_split (lower ''python java''))
          (filter (\<lambda>r. owner_id r = 7) (resumes ask_db))"
      and aall: "int (length acorpus) \<le> 5 \<longrightarrow>
         map src_resume_id (sources resp) =
           map (\<lambda>t. resume_id (rel_resume t)) (sort_desc rel_score acorpus) \<and>
         length (sources resp) = length acorpus"
    by blast
  from ac ask_db_corpus have "length acorpus = 2" by simp
  with aall have l2: "length (sources resp) = 2" by simp
  from resp ask_db_answer have m2: "map src_resume_id (sources resp) = [1, 2]" by auto
  have ra: "\<exists>resp. ask_question (\<lambda>q t. []) ''python java'' 5 7 ask_db = Inr resp \<and>
      map src_resume_id (sources resp) = [1, 2] \<and> length (sources resp) = 2"
    by (rule exI [of _ resp]) (simp only: resp l2 m2)
  from e7 vec_db_scored r7 e1 r1 e0 vec_db_no_job [of 2] x1 vec_docs_ranked rd
    vec_docs_misaligned [of 2] x2 ra
  show ?thesis by (intro conjI)
qed

text \<open>
  Claim C5 as stated fails for a cut-off of 0 or less: with two scored resumes,
  \<open>ask_question\<close> returns no source for \<open>k = 0\<close> and one source for \<open>k = -1\<close>.
\<close>

theorem cut_off_zero_counterexample:
  "ask_question (\<lambda>q t. []) ''python java'' 0 7 ask_db = Inr \<lparr>answer = [], sources = []\<rparr> \<and>
   ask_question (\<lambda>q t. []) ''python java'' 2 7 ask_db =
     Inr \<lparr>answer = [], sources = [
       \<lparr>src_resume_id = 1, src_filename = ''a.txt'', similarity_score = 1 / 2, snippets = []\<rparr>,
       \<lparr>src_resume_id = 2, src_filename = ''b.txt'', similarity_score = 1 / 2, snippets = []\<rparr>]\<rparr> \<and>
   ask_question (\<lambda>q t. []) ''python java'' (- 1) 7 ask_db =
     Inr \<lparr>answer = [], sources = [
       \<lparr>src_resume_id = 1, src_filename = ''a.txt'', similarity_score = 1 / 2, snippets = []\<rparr>]\<rparr>"
  by code_simp

subsection \<open>Cosine similarity\<close>

lemma is_double_small: "is_double 0" "is_double 1" "is_double (- 1)"
proof -
  show "is_double 0"
    unfolding is_double_def by (intro exI [of _ 0]) simp
  show "is_double 1"
    unfolding is_double_def by (rule exI [of _ 1], rule exI [of _ 0]) simp
  show "is_double (- 1)"
    unfolding is_double_def by (rule exI [of _ "- 1"], rule exI [of _ 0]) simp
qed

text \<open>
  Claim C1. The score is to lie in \<open>[0,1]\<close>, as the comment on the score column of
  \<^verbatim>\<open>models.py\<close> says as well. \<open>calculate_similarity\<close> returns the cosine as it is, with no
  clamping: for the opposed vectors \<^verbatim>\<open>[1.0]\<close> and \<^verbatim>\<open>[-1.0]\<close> it returns \<^verbatim>\<open>-1.0\<close>, in the
  arithmetic of doubles (whatever the rounding, every intermediate value being a double)
  as in exact arithmetic.
\<close>

theorem calculate_similarity_negative:
  "calculate_similarity (ieee_numeric rnd) [1] [- 1] = Inr (Finite (- 1)) \<and>
   calculate_similarity exact_numeric [1] [- 1] = Inr (- 1)"
  by (simp add: calculate_similarity_def ieee_numeric_def exact_numeric_def fl_dot_def
        fl_norm_def fl_result_def is_double_small)

subsection \<open>Patterns over one character class\<close>

lemma star_set_head:
  "\<exists>q rest. rmatch False (Star (Set P)) (p, s) = (q, dropWhile P s) # rest"
proof (induction s arbitrary: p)
  case Nil
  show ?case by simp
next
  case (Cons c cs)
  show ?case
  proof (cases "P c")
    case True
    from Cons [of "Some c"] obtain q rest where
      "rmatch False (Star (Set P)) (Some c, cs) = (q, dropWhile P cs) # rest" by blast
    with True show ?thesis by simp
  next
    case False
    then show ?thesis by simp
  qed
qed

lemma match_at_plus_set:
  "match_at False (Plus (Set P)) (p, s) =
     (case s of [] \<Rightarrow> None
      | c # cs \<Rightarrow> if P c then Some (fst (hd (rmatch False (Star (Set P)) (Some c, cs))), dropWhile P cs)
                  else None)"
proof (cases s)
  case Nil
  then show ?thesis by (simp add: match_at_def Plus_def)
next
  case (Cons c cs)
  obtain q rest where "rmatch False (Star (Set P)) (Some c, cs) = (q, dropWhile P cs) # rest"
    using star_set_head by blast
  with Cons show ?thesis
    by (simp add: match_at_def Plus_def le_imp_less_Suc length_dropWhile_le)
qed

lemma sub_from_plus_set:
  "sub_from False (Plus (Set P)) rep (p, s) = sub_runs P rep s"
proof (induction P rep s arbitrary: p rule: sub_runs.induct)
  case (1 P rep)
  show ?case by (simp add: match_at_plus_set)
next
  case (2 P rep c cs)
  show ?case
  proof (cases "P c")
    case True
    with 2 show ?thesis by (simp add: match_at_plus_set)
  next
    case False
    with 2 show ?thesis by (simp add: match_at_plus_set)
  qed
qed

lemma split_from_plus_set:
  "split_from False (Plus (Set P)) (p, s) piece = split_runs P s piece"
proof (induction P s piece arbitrary: p rule: split_runs.induct)
  case (1 P piece)
  show ?case by (simp add: match_at_plus_set)
next
  case (2 P c cs piece)
  show ?case
  proof (cases "P c")
    case True
    with 2 show ?thesis by (simp add: match_at_plus_set)
  next
    case False
    with 2 show ?thesis by (simp add: match_at_plus_set)
  qed
qed

lemma match_at_set:
  "match_at False (Set P) (p, s) =
     (case s of [] \<Rightarrow> None | c # cs \<Rightarrow> if P c then Some (Some c, cs) else None)"
  by (cases s) (simp_all add: match_at_def)

lemma sub_from_set: "sub_from False (Set P) [] (p, s) = filter (\<lambda>c. \<not> P c) s"
  by (induction s arbitrary: p) (simp_all add: match_at_set)

subsection \<open>Snippets and text cleaning\<close>

lemma any_word_in_iff: "any_word_in qs s \<longleftrightarrow> (\<exists>w \<in> set qs. str_in w s)"
  by (induction qs) auto

lemma snippet_loop_filter:
  "snippet_loop qs sentences =
     filter (\<lambda>s. 50 < length s)
       (map (\<lambda>s. take 200 (str_strip s))
         (filter (\<lambda>s. \<exists>w \<in> set qs. str_in w (lower s)) sentences))"
  by (induction sentences) (simp_all add: any_word_in_iff Let_def)

text \<open>
  Claim C9, as amended. The snippet extractor cuts the content at every run of \<open>.\<close>, \<open>!\<close>
  and \<open>?\<close>, keeps the sentences whose lower-case form contains a word of the lower-case
  query, strips each and truncates it to 200 characters, keeps a snippet only if it is
  strictly longer than 50 characters, and returns the first 3 snippets that remain.
\<close>

theorem extract_snippets_filter:
  "extract_snippets query c =
     take 3 (filter (\<lambda>s. 50 < length s)
       (map (\<lambda>s. take 200 (str_strip s))
         (filter (\<lambda>s. \<exists>w \<in> set (str_split (lower query)). str_in w (lower s))
            (split_runs (\<lambda>x. x \<in> set ''.!?'') c []))))"
  by (simp add: extract_snippets_def re_split_def split_from_plus_set snippet_loop_filter
        del: split_from.simps)

text \<open>
  Claim C9 as stated fails: a relevant sentence of exactly 50 characters is not kept.
\<close>

theorem snippet_of_fifty_counterexample:
  "length fifty_chars = 50 \<and>
   re_split False (Plus (Set (\<lambda>x. x \<in> set ''.!?''))) fifty_chars = [fifty_chars] \<and>
   str_in ''python'' (lower fifty_chars) \<and>
   take 200 (str_strip fifty_chars) = fifty_chars \<and>
   extract_snippets ''python'' fifty_chars = []"
  by code_simp

lemma set_sub_runs:
  "set (sub_runs P rep s) \<subseteq> {c \<in> set s. \<not> P c} \<union> set rep"
proof (induction P rep s rule: sub_runs.induct)
  case (1 P rep)
  show ?case by simp
next
  case (2 P rep c cs)
  have "set (dropWhile P cs) \<subseteq> set cs" by (rule set_dropWhileD [THEN subsetI])
  with 2 show ?case by (cases "P c") auto
qed

lemma set_split_acc: "w \<in> set (split_acc s acc) \<Longrightarrow> set w \<subseteq> set s \<union> set acc"
  by (induction s arbitrary: acc) (fastforce split: if_splits)+

lemma set_str_join: "set (str_join sep ws) \<subseteq> set sep \<union> (\<Union>w \<in> set ws. set w)"
  by (induction sep ws rule: str_join.induct) auto

lemma ord_char_of: "0 \<le> n \<Longrightarrow> n < 256 \<Longrightarrow> ord (char_of n) = n"
  by (simp add: ord_def)

lemma lower_char_allowed:
  "is_word c \<or> c = CHR '' '' \<or> c \<in> set ''.,!?;:-'' \<Longrightarrow>
   is_word (lower_char c) \<or> lower_char c = CHR '' '' \<or> lower_char c \<in> set ''.,!?;:-''"
proof (cases "isupper c")
  case True
  then have "islower (lower_char c)"
    by (simp add: lower_char_def isupper_def islower_def Let_def ord_char_of)
  then show ?thesis by (simp add: is_word_def isalnum_def isalpha_def)
next
  case False
  assume "is_word c \<or> c = CHR '' '' \<or> c \<in> set ''.,!?;:-''"
  with False show ?thesis by (simp add: lower_char_def)
qed

text \<open>
  What \<open>clean_text\<close> does, step by step: it replaces every run of whitespace by one space,
  strips every character that is not a word character (an alphanumeric or the
  underscore), whitespace or one of \<open>. , ! ? ; : -\<close>, lower-cases, drops every token of
  length at most 2 and joins the rest with single spaces. Its output contains only word
  characters, single spaces and those punctuation marks.
\<close>

lemma clean_text_steps:
  "clean_text t =
     str_join '' ''
       (filter (\<lambda>w. \<not> length w \<le> 2)
         (str_split (lower
           (filter (\<lambda>c. is_word c \<or> isspace c \<or> c \<in> set ''.,!?;:-'')
             (sub_runs isspace '' '' t))))) \<and>
   (\<forall>c \<in> set (clean_text t). is_word c \<or> c = CHR '' '' \<or> c \<in> set ''.,!?;:-'')"
proof
  show steps: "clean_text t =
     str_join '' ''
       (filter (\<lambda>w. \<not> length w \<le> 2)
         (str_split (lower
           (filter (\<lambda>c. is_word c \<or> isspace c \<or> c \<in> set ''.,!?;:-'')
             (sub_runs isspace '' '' t)))))"
    by (simp add: clean_text_def re_sub_def sub_from_plus_set sub_from_set Let_def not_le
          del: sub_from.simps)
  let ?collapsed = "sub_runs isspace '' '' t"
  let ?kept = "filter (\<lambda>c. is_word c \<or> isspace c \<or> c \<in> set ''.,!?;:-'') ?collapsed"
  have kept: "is_word c \<or> c = CHR '' '' \<or> c \<in> set ''.,!?;:-''" if "c \<in> set ?kept" for c
    using that set_sub_runs [of isspace "'' ''" t] by auto
  have lowered: "is_word c \<or> c = CHR '' '' \<or> c \<in> set ''.,!?;:-''" if "c \<in> set (lower ?kept)" for c
  proof -
    from that obtain c0 where "c0 \<in> set ?kept" "c = lower_char c0"
      by (auto simp: lower_def)
    with kept [of c0] lower_char_allowed [of c0] show ?thesis by blast
  qed
  show "\<forall>c \<in> set (clean_text t). is_word c \<or> c = CHR '' '' \<or> c \<in> set ''.,!?;:-''"
  proof
    fix c assume "c \<in> set (clean_text t)"
    then have "c \<in> set '' '' \<union> (\<Union>w \<in> set (filter (\<lambda>w. \<not> length w \<le> 2) (str_split (lower ?kept))). set w)"
      unfolding steps using set_str_join by blast
    then consider "c = CHR '' ''" | w where "w \<in> set (str_split (lower ?kept))" "c \<in> set w"
      by auto
    then show "is_word c \<or> c = CHR '' '' \<or> c \<in> set ''.,!?;:-''"
    proof cases
      case 1
      then show ?thesis by simp
    next
      case 2
      then have "c \<in> set (lower ?kept)"
        using set_split_acc [of w "lower ?kept" "[]"] by (auto simp: str_split_def)
      then show ?thesis by (rule lowered)
    qed
  qed
qed

text \<open>
  Claim C8. The normalizer is to keep alphanumerics, whitespace and the punctuation marks
  \<open>. , ! ? ; : -\<close> only, as the comment above the pattern in \<^verbatim>\<open>_clean_text\<close> says as well. The
  pattern \<^verbatim>\<open>[^\w\s.,!?;:-]\<close> keeps the underscore too, which is none of them: on \<^verbatim>\<open>a_b\<close> the
  code returns \<^verbatim>\<open>a_b\<close>.
\<close>

theorem clean_text_keeps_underscore:
  "clean_text ''a_b'' = ''a_b'' \<and> CHR ''_'' \<in> set (clean_text ''a_b'') \<and>
   \<not> isalnum CHR ''_'' \<and> \<not> isspace CHR ''_'' \<and> CHR ''_'' \<notin> set ''.,!?;:-''"
  by code_simp

subsection \<open>Redaction applied twice\<close>







end
